theory Spec2Isabelle
  imports Complex_Main
begin

section \<open>Python values as produced by the JSON parser\<close>

text \<open>
  \<^verbatim>\<open>json.load\<close> yields \<^verbatim>\<open>None\<close>, \<^verbatim>\<open>bool\<close>, \<^verbatim>\<open>int\<close>, \<^verbatim>\<open>float\<close>,
  \<^verbatim>\<open>str\<close>, \<^verbatim>\<open>list\<close> and \<^verbatim>\<open>dict\<close> (string keys, insertion ordered).
  A dict is the list of its items in insertion order. A float is the rational it
  denotes, or one of the three non-finite values the parser accepts.
\<close>

datatype pyfloat = Finite rat | PosInf | NegInf | NaN

datatype json =
    JNull
  | JBool bool
  | JInt int
  | JFloat pyfloat
  | JStr string
  | JArr "json list"
  | JObj "(string \<times> json) list"

text \<open>The exceptions the modelled code can raise.\<close>

datatype pyerr = TypeError | AttributeError | KeyError | UnicodeEncodeError | OtherExc string

definition ebind :: "pyerr + 'a \<Rightarrow> ('a \<Rightarrow> pyerr + 'b) \<Rightarrow> pyerr + 'b" where
  "ebind m f = (case m of Inl e \<Rightarrow> Inl e | Inr x \<Rightarrow> f x)"

definition sq :: "string \<Rightarrow> string" where
  "sq s = CHR 0x27 # s @ [CHR 0x27]"

definition digit_char :: "nat \<Rightarrow> char" where
  "digit_char d = ''0123456789'' ! (d mod 10)"

function show_nat :: "nat \<Rightarrow> string" where
  "show_nat n = (if n < 10 then [digit_char n] else show_nat (n div 10) @ [digit_char (n mod 10)])"
  by pat_completeness auto
termination
  by (relation "measure (\<lambda>n. n)") auto

declare show_nat.simps [simp del]

definition show_int :: "int \<Rightarrow> string" where
  "show_int i = (if i < 0 then CHR ''-'' # show_nat (nat (- i)) else show_nat (nat i))"

fun starts_with :: "string \<Rightarrow> string \<Rightarrow> bool" where
  "starts_with [] s = True"
| "starts_with (p # ps) [] = False"
| "starts_with (p # ps) (c # cs) = (p = c \<and> starts_with ps cs)"

fun contains :: "string \<Rightarrow> string \<Rightarrow> bool" where
  "contains p [] = (p = [])"
| "contains p (c # cs) = (starts_with p (c # cs) \<or> contains p cs)"

definition is_dict :: "json \<Rightarrow> bool" where
  "is_dict v = (case v of JObj kvs \<Rightarrow> True | _ \<Rightarrow> False)"

definition is_list :: "json \<Rightarrow> bool" where
  "is_list v = (case v of JArr xs \<Rightarrow> True | _ \<Rightarrow> False)"

text \<open>\<^verbatim>\<open>key in obj\<close> for a string key: membership in a dict's keys, in a list's
  elements, substring of a string; a \<^verbatim>\<open>TypeError\<close> on every other value.\<close>

definition py_in :: "string \<Rightarrow> json \<Rightarrow> pyerr + bool" where
  "py_in k v = (case v of
       JObj kvs \<Rightarrow> Inr (k \<in> set (map fst kvs))
     | JArr xs \<Rightarrow> Inr (JStr k \<in> set xs)
     | JStr s \<Rightarrow> Inr (contains k s)
     | _ \<Rightarrow> Inl TypeError)"

text \<open>\<^verbatim>\<open>obj[key]\<close> for a string key.\<close>

definition py_getitem :: "json \<Rightarrow> string \<Rightarrow> pyerr + json" where
  "py_getitem v k = (case v of
       JObj kvs \<Rightarrow> (case map_of kvs k of Some x \<Rightarrow> Inr x | None \<Rightarrow> Inl KeyError)
     | _ \<Rightarrow> Inl TypeError)"

text \<open>\<^verbatim>\<open>obj.get(key, default)\<close>: only a dict has the method.\<close>

definition py_get :: "json \<Rightarrow> string \<Rightarrow> json \<Rightarrow> pyerr + json" where
  "py_get v k d = (case v of
       JObj kvs \<Rightarrow> Inr (case map_of kvs k of Some x \<Rightarrow> x | None \<Rightarrow> d)
     | _ \<Rightarrow> Inl AttributeError)"

text \<open>\<^verbatim>\<open>obj.values()\<close>: only a dict has the method.\<close>

definition py_values :: "json \<Rightarrow> pyerr + json list" where
  "py_values v = (case v of JObj kvs \<Rightarrow> Inr (map snd kvs) | _ \<Rightarrow> Inl AttributeError)"

definition py_len :: "json \<Rightarrow> pyerr + nat" where
  "py_len v = (case v of
       JArr xs \<Rightarrow> Inr (length xs)
     | JObj kvs \<Rightarrow> Inr (length kvs)
     | JStr s \<Rightarrow> Inr (length s)
     | _ \<Rightarrow> Inl TypeError)"

text \<open>\<^verbatim>\<open>for x in obj\<close>: the elements of a list, the keys of a dict, the characters
  of a string.\<close>

definition py_iter :: "json \<Rightarrow> pyerr + json list" where
  "py_iter v = (case v of
       JArr xs \<Rightarrow> Inr xs
     | JObj kvs \<Rightarrow> Inr (map (\<lambda>kv. JStr (fst kv)) kvs)
     | JStr s \<Rightarrow> Inr (map (\<lambda>c. JStr [c]) s)
     | _ \<Rightarrow> Inl TypeError)"

text \<open>Truth value of an object, as \<^verbatim>\<open>not obj\<close> and \<^verbatim>\<open>if obj\<close> test it.\<close>

definition py_truthy :: "json \<Rightarrow> bool" where
  "py_truthy v = (case v of
       JNull \<Rightarrow> False
     | JBool b \<Rightarrow> b
     | JInt i \<Rightarrow> i \<noteq> 0
     | JFloat f \<Rightarrow> f \<noteq> Finite 0
     | JStr s \<Rightarrow> s \<noteq> []
     | JArr xs \<Rightarrow> xs \<noteq> []
     | JObj kvs \<Rightarrow> kvs \<noteq> [])"

subsection \<open>Dicts keyed by parsed values\<close>

text \<open>
  \<^verbatim>\<open>node_types\<close> is keyed by whatever the \<^verbatim>\<open>type\<close> field holds. Lists and dicts
  are unhashable. Keys are compared as Python compares them: numbers by value
  across \<^verbatim>\<open>bool\<close>, \<^verbatim>\<open>int\<close> and \<^verbatim>\<open>float\<close>, everything else structurally.
\<close>

definition hashable :: "json \<Rightarrow> bool" where
  "hashable v = (case v of JArr xs \<Rightarrow> False | JObj kvs \<Rightarrow> False | _ \<Rightarrow> True)"

definition num_of :: "json \<Rightarrow> pyfloat option" where
  "num_of v = (case v of
       JBool b \<Rightarrow> Some (Finite (if b then 1 else 0))
     | JInt i \<Rightarrow> Some (Finite (of_int i))
     | JFloat f \<Rightarrow> Some f
     | _ \<Rightarrow> None)"

definition key_eq :: "json \<Rightarrow> json \<Rightarrow> bool" where
  "key_eq a b = (case (num_of a, num_of b) of
       (Some x, Some y) \<Rightarrow> x = y
     | (None, None) \<Rightarrow> a = b
     | _ \<Rightarrow> False)"

fun dict_get :: "(json \<times> nat) list \<Rightarrow> json \<Rightarrow> nat \<Rightarrow> nat" where
  "dict_get [] k d = d"
| "dict_get ((k', v) # rest) k d = (if key_eq k' k then v else dict_get rest k d)"

fun dict_set :: "(json \<times> nat) list \<Rightarrow> json \<Rightarrow> nat \<Rightarrow> (json \<times> nat) list" where
  "dict_set [] k v = [(k, v)]"
| "dict_set ((k', v') # rest) k v =
     (if key_eq k' k then (k', v) # rest else (k', v') # dict_set rest k v)"

section \<open>Component A: input and validation\<close>

text \<open>
  The dataclasses of \<^verbatim>\<open>workflow_analyzer.py\<close> and the methods of
  \<^verbatim>\<open>WorkflowValidator\<close>. A function that can raise returns \<open>pyerr + 'a\<close>, with
  \<open>Inl\<close> the exception. The identifier and the name of a workflow are whatever
  values the document holds under \<^verbatim>\<open>id\<close> and \<^verbatim>\<open>name\<close>.
\<close>

record WorkflowMetadata =
  filepath :: string
  workflow_id :: json
  workflow_name :: json
  node_count :: nat
  node_types :: "(json \<times> nat) list"
  has_connections :: bool
  connections_count :: nat

record ValidationResult =
  valid :: bool
  errors :: "string list"
  warnings :: "string list"

subsection \<open>The file system as the validator sees it\<close>

text \<open>
  What \<^verbatim>\<open>open\<close> followed by \<^verbatim>\<open>json.load\<close> does at a path: a parsed value, a
  \<^verbatim>\<open>JSONDecodeError\<close>, an \<^verbatim>\<open>IOError\<close>, or an exception of another class
  (a \<^verbatim>\<open>UnicodeDecodeError\<close>, say), each with its message.
\<close>

datatype read_result =
    Parsed json
  | JSONDecodeError string
  | IOError string
  | OtherError string

datatype fkind = Regular | Directory | Special

datatype fsnode = Absent | Present fkind read_result

definition path_exists :: "(string \<Rightarrow> fsnode) \<Rightarrow> string \<Rightarrow> bool" where
  "path_exists fs p = (fs p \<noteq> Absent)"

definition path_isfile :: "(string \<Rightarrow> fsnode) \<Rightarrow> string \<Rightarrow> bool" where
  "path_isfile fs p = (case fs p of Present Regular r \<Rightarrow> True | _ \<Rightarrow> False)"


definition read_json :: "(string \<Rightarrow> fsnode) \<Rightarrow> string \<Rightarrow> read_result" where
  "read_json fs p = (case fs p of
       Absent \<Rightarrow> IOError ''No such file or directory''
     | Present k r \<Rightarrow> r)"

subsection \<open>validate_structure\<close>

definition missing_field_warnings :: "nat \<Rightarrow> (string \<times> json) list \<Rightarrow> string list" where
  "missing_field_warnings idx node =
     concat (map (\<lambda>field. if field \<notin> set (map fst node)
                           then [''Node at index '' @ show_nat idx @ '' missing field '' @ sq field]
                           else [])
                 [''id'', ''name'', ''type''])"

fun node_warnings :: "nat \<Rightarrow> json list \<Rightarrow> string list" where
  "node_warnings idx [] = []"
| "node_warnings idx (node # rest) =
     (case node of
        JObj kvs \<Rightarrow> missing_field_warnings idx kvs
      | _ \<Rightarrow> [''Node at index '' @ show_nat idx @ '' is not an object''])
     @ node_warnings (Suc idx) rest"

definition check_nodes :: "json \<Rightarrow> pyerr + ValidationResult" where
  "check_nodes workflow =
     ebind (py_in ''nodes'' workflow) (\<lambda>present.
       if \<not> present
       then Inr \<lparr>valid = False,
                 errors = [''Missing required field: '' @ sq ''nodes''],
                 warnings = []\<rparr>
       else ebind (py_getitem workflow ''nodes'') (\<lambda>nodes.
         case nodes of
           JArr ns \<Rightarrow> Inr \<lparr>valid = True, errors = [], warnings = node_warnings 0 ns\<rparr>
         | _ \<Rightarrow> Inr \<lparr>valid = False,
                      errors = [''Field '' @ sq ''nodes'' @ '' must be an array''],
                      warnings = []\<rparr>))"

definition check_connections :: "json \<Rightarrow> ValidationResult \<Rightarrow> pyerr + ValidationResult" where
  "check_connections workflow result =
     ebind (py_in ''connections'' workflow) (\<lambda>present.
       if \<not> present
       then Inr (result\<lparr>warnings := warnings result
                     @ [''Workflow has no '' @ sq ''connections'' @ '' field'']\<rparr>)
       else ebind (py_getitem workflow ''connections'') (\<lambda>c.
         if \<not> is_dict c
         then Inr (result\<lparr>warnings := warnings result
                     @ [''Field '' @ sq ''connections'' @ '' should be an object'']\<rparr>)
         else Inr result))"

definition validate_structure :: "json \<Rightarrow> pyerr + ValidationResult" where
  "validate_structure workflow =
     ebind (check_nodes workflow) (check_connections workflow)"

subsection \<open>load_workflow\<close>

definition load_workflow ::
  "(string \<Rightarrow> fsnode) \<Rightarrow> string \<Rightarrow> pyerr + (json option \<times> ValidationResult)" where
  "load_workflow fs path =
     (if \<not> path_exists fs path
      then Inr (None, \<lparr>valid = False, errors = [''File not found: '' @ path], warnings = []\<rparr>)
      else if \<not> path_isfile fs path
      then Inr (None, \<lparr>valid = False, errors = [''Path is not a file: '' @ path], warnings = []\<rparr>)
      else (case read_json fs path of
              JSONDecodeError msg \<Rightarrow>
                Inr (None, \<lparr>valid = False, errors = [''Invalid JSON syntax: '' @ msg], warnings = []\<rparr>)
            | IOError msg \<Rightarrow>
                Inr (None, \<lparr>valid = False, errors = [''Cannot read file: '' @ msg], warnings = []\<rparr>)
            | OtherError msg \<Rightarrow> Inl (OtherExc msg)
            | Parsed workflow \<Rightarrow>
                ebind (validate_structure workflow) (\<lambda>validation.
                  if \<not> valid validation
                  then Inr (Some workflow, validation)
                  else Inr (Some workflow, \<lparr>valid = True, errors = [], warnings = []\<rparr>))))"

subsection \<open>extract_metadata\<close>

fun count_node_types :: "(json \<times> nat) list \<Rightarrow> json list \<Rightarrow> pyerr + (json \<times> nat) list" where
  "count_node_types acc [] = Inr acc"
| "count_node_types acc (node # rest) =
     (case py_get node ''type'' (JStr ''unknown'') of
        Inl e \<Rightarrow> Inl e
      | Inr node_type \<Rightarrow>
          if \<not> hashable node_type then Inl TypeError
          else count_node_types (dict_set acc node_type (dict_get acc node_type 0 + 1)) rest)"

definition node_type_counts :: "json \<Rightarrow> pyerr + (json \<times> nat) list" where
  "node_type_counts workflow =
     ebind (py_get workflow ''nodes'' (JArr [])) (\<lambda>nodes.
     ebind (py_iter nodes) (count_node_types []))"

text \<open>\<^verbatim>\<open>sum(len(conns) for conns in connections.values() if isinstance(conns, dict))\<close>\<close>

fun sum_lens :: "json list \<Rightarrow> pyerr + nat" where
  "sum_lens [] = Inr 0"
| "sum_lens (conns # rest) =
     (if is_dict conns
      then (case py_len conns of
              Inl e \<Rightarrow> Inl e
            | Inr n \<Rightarrow> (case sum_lens rest of Inl e \<Rightarrow> Inl e | Inr s \<Rightarrow> Inr (n + s)))
      else sum_lens rest)"

definition count_connections :: "json \<Rightarrow> pyerr + nat" where
  "count_connections connections = ebind (py_values connections) sum_lens"

definition extract_metadata :: "json \<Rightarrow> string \<Rightarrow> pyerr + WorkflowMetadata" where
  "extract_metadata workflow fp =
     ebind (node_type_counts workflow) (\<lambda>types.
     ebind (py_get workflow ''connections'' (JObj [])) (\<lambda>connections.
     ebind (count_connections connections) (\<lambda>cc.
     ebind (py_get workflow ''id'' (JStr ''unknown'')) (\<lambda>wid.
     ebind (py_get workflow ''name'' (JStr ''unnamed'')) (\<lambda>wname.
     ebind (py_get workflow ''nodes'' (JArr [])) (\<lambda>nodes.
     ebind (py_len nodes) (\<lambda>n.
     ebind (py_in ''connections'' workflow) (\<lambda>hc.
       Inr \<lparr>filepath = fp, workflow_id = wid, workflow_name = wname,
            node_count = n, node_types = types,
            has_connections = hc, connections_count = cc\<rparr>))))))))"

section \<open>Component B: hybrid analysis engine\<close>

subsection \<open>The clock\<close>

record datetime =
  dt_year :: nat
  dt_month :: nat
  dt_day :: nat
  dt_hour :: nat
  dt_minute :: nat
  dt_second :: nat
  dt_microsecond :: nat

definition pad :: "nat \<Rightarrow> string \<Rightarrow> string" where
  "pad w s = replicate (w - length s) CHR ''0'' @ s"

text \<open>\<^verbatim>\<open>strftime('%Y-%m-%d %H:%M:%S')\<close>\<close>

definition strftime :: "datetime \<Rightarrow> string" where
  "strftime t =
     pad 4 (show_nat (dt_year t)) @ ''-'' @ pad 2 (show_nat (dt_month t)) @ ''-''
     @ pad 2 (show_nat (dt_day t)) @ '' '' @ pad 2 (show_nat (dt_hour t)) @ '':''
     @ pad 2 (show_nat (dt_minute t)) @ '':'' @ pad 2 (show_nat (dt_second t))"

definition isoformat :: "datetime \<Rightarrow> string" where
  "isoformat t =
     pad 4 (show_nat (dt_year t)) @ ''-'' @ pad 2 (show_nat (dt_month t)) @ ''-''
     @ pad 2 (show_nat (dt_day t)) @ ''T'' @ pad 2 (show_nat (dt_hour t)) @ '':''
     @ pad 2 (show_nat (dt_minute t)) @ '':'' @ pad 2 (show_nat (dt_second t))
     @ (if dt_microsecond t = 0 then [] else ''.'' @ pad 6 (show_nat (dt_microsecond t)))"

definition is_leap :: "nat \<Rightarrow> bool" where
  "is_leap y = (y mod 4 = 0 \<and> (y mod 100 \<noteq> 0 \<or> y mod 400 = 0))"

definition days_before_year :: "nat \<Rightarrow> int" where
  "days_before_year y =
     (int y - 1) * 365 + (int y - 1) div 4 - (int y - 1) div 100 + (int y - 1) div 400"

definition days_before_month :: "nat \<Rightarrow> nat \<Rightarrow> int" where
  "days_before_month y m =
     [0, 0, 31, 59, 90, 120, 151, 181, 212, 243, 273, 304, 334] ! (m mod 13)
     + (if 2 < m \<and> is_leap y then 1 else 0)"

definition toordinal :: "datetime \<Rightarrow> int" where
  "toordinal t = days_before_year (dt_year t) + days_before_month (dt_year t) (dt_month t)
                 + int (dt_day t)"

text \<open>\<^verbatim>\<open>(t1 - t0).total_seconds()\<close>, as the whole number of microseconds whose
  quotient by \<open>10\<^sup>6\<close> the float is.\<close>

definition micros_between :: "datetime \<Rightarrow> datetime \<Rightarrow> int" where
  "micros_between t0 t1 =
     ((toordinal t1 - toordinal t0) * 86400
      + (int (dt_second t1) + int (dt_minute t1) * 60 + int (dt_hour t1) * 3600)
      - (int (dt_second t0) + int (dt_minute t0) * 60 + int (dt_hour t0) * 3600)) * 1000000
     + (int (dt_microsecond t1) - int (dt_microsecond t0))"

subsection \<open>The world outside the program\<close>

text \<open>What \<^verbatim>\<open>subprocess.run(cmd, capture_output=True, text=True, timeout=60)\<close>
  does: the process completes (return code, stdout, stderr), the timeout expires,
  the executable is not found, or another exception is raised (with its message).\<close>

datatype proc_outcome =
    Completed int string string
  | TimeoutExpired
  | FileNotFoundError
  | OtherException string

text \<open>
  The environment answers every question the program asks of the outside: the
  file system, the subprocesses, the successive readings of the clock, and the
  library functions whose results are taken as given (\<^verbatim>\<open>json.loads\<close>,
  \<^verbatim>\<open>Path.glob\<close>, \<^verbatim>\<open>Path.stem\<close>, path joining, \<^verbatim>\<open>str\<close> of an exception and
  of a float or container, \<^verbatim>\<open>'.2f'\<close> formatting, \<^verbatim>\<open>json.dump\<close>), and whether
  standard output takes a text: \<^verbatim>\<open>print\<close> raises on a text that the stream
  cannot encode or write.
\<close>

record report_analysis =
  ra_agentic_radar_findings :: json
  ra_semgrep_findings :: json
  ra_total_findings :: nat
  ra_execution_time :: int
  ra_timestamp :: string

record report_entry =
  re_workflow_path :: string
  re_workflow_name :: json
  re_workflow_id :: json
  re_node_count :: nat
  re_node_types :: "(json \<times> nat) list"
  re_analysis :: report_analysis

record env =
  files :: "string \<Rightarrow> fsnode"
  subprocess_run :: "string list \<Rightarrow> proc_outcome"
  json_loads :: "string \<Rightarrow> read_result"
  glob :: "string \<Rightarrow> string \<Rightarrow> string list"
  now :: "nat \<Rightarrow> datetime"
  path_stem :: "string \<Rightarrow> string"
  path_join :: "string \<Rightarrow> string \<Rightarrow> string"
  exc_str :: "pyerr \<Rightarrow> string"
  py_repr :: "json \<Rightarrow> string"
  fmt_2f :: "int \<Rightarrow> string"
  json_dump :: "report_entry list \<Rightarrow> string"
  stdout_accepts :: "string \<Rightarrow> bool"

text \<open>\<^verbatim>\<open>print(text)\<close> to standard output. What is printed is not recorded; a print
  is the point where the run raises when the stream rejects the text. Warnings go
  to standard error, which replaces what it cannot encode, and are left out.\<close>

definition py_print :: "env \<Rightarrow> string \<Rightarrow> pyerr + unit" where
  "py_print E t = (if stdout_accepts E t then Inr () else Inl UnicodeEncodeError)"

fun print_lines :: "env \<Rightarrow> string list \<Rightarrow> pyerr + unit" where
  "print_lines E [] = Inr ()"
| "print_lines E (t # ts) = (case py_print E t of Inl e \<Rightarrow> Inl e | Inr u \<Rightarrow> print_lines E ts)"

definition nl :: string where
  "nl = [CHR 0x0A]"

text \<open>\<^verbatim>\<open>str(v)\<close>, as an f-string renders a value.\<close>

definition py_str :: "env \<Rightarrow> json \<Rightarrow> string" where
  "py_str E v = (case v of
       JStr s \<Rightarrow> s
     | JInt i \<Rightarrow> show_int i
     | JBool b \<Rightarrow> (if b then ''True'' else ''False'')
     | JNull \<Rightarrow> ''None''
     | _ \<Rightarrow> py_repr E v)"

subsection \<open>AgenticRadarExecutor\<close>

text \<open>\<^verbatim>\<open>AgenticRadarExecutor._parse_output\<close> is \<open>radar_parse_output\<close> and
  \<^verbatim>\<open>AgenticRadarExecutor.run\<close> is \<open>radar_run\<close>. The constructor's creation of the
  output directory is not modelled.\<close>

definition synthetic_finding :: "string \<Rightarrow> json" where
  "synthetic_finding html_file =
     JObj [(''tool'', JStr ''agentic-radar''),
           (''type'', JStr ''report_generated''),
           (''message'', JStr (''HTML report generated at '' @ html_file)),
           (''severity'', JStr ''info'')]"

definition findings_of_data :: "json \<Rightarrow> pyerr + json" where
  "findings_of_data data =
     ebind (if is_dict data then py_in ''findings'' data else Inr False) (\<lambda>has.
       if has then py_getitem data ''findings''
       else if is_list data then Inr data
       else Inr (JArr []))"

text \<open>The findings after the JSON step: every exception inside it is caught and
  leaves the empty list.\<close>

definition radar_json_findings :: "env \<Rightarrow> string \<Rightarrow> json" where
  "radar_json_findings E json_file =
     (if path_exists (files E) json_file
      then (case read_json (files E) json_file of
              Parsed data \<Rightarrow> (case findings_of_data data of Inr f \<Rightarrow> f | Inl e \<Rightarrow> JArr [])
            | _ \<Rightarrow> JArr [])
      else JArr [])"

definition py_append :: "json \<Rightarrow> json \<Rightarrow> pyerr + json" where
  "py_append l x = (case l of JArr xs \<Rightarrow> Inr (JArr (xs @ [x])) | _ \<Rightarrow> Inl AttributeError)"

definition radar_parse_output :: "env \<Rightarrow> string \<Rightarrow> string \<Rightarrow> pyerr + json" where
  "radar_parse_output E output_path wf_name =
     (let json_file = path_join E output_path (wf_name @ ''.json'');
          findings = radar_json_findings E json_file;
          html_file = path_join E output_path (wf_name @ ''.html'')
      in if path_exists (files E) html_file \<and> \<not> py_truthy findings
         then py_append findings (synthetic_finding html_file)
         else Inr findings)"

definition radar_cmd :: "env \<Rightarrow> string \<Rightarrow> string \<Rightarrow> string list" where
  "radar_cmd E output_dir workflow_path =
     [''agentic-radar'', ''scan'', workflow_path, ''--output'',
      path_join E output_dir (path_stem E workflow_path @ ''_radar'')]"

text \<open>The body of \<^verbatim>\<open>run\<close> after the subprocess call, by its outcome.\<close>

definition radar_result ::
  "env \<Rightarrow> string \<Rightarrow> string \<Rightarrow> proc_outcome \<Rightarrow> json \<times> bool \<times> string" where
  "radar_result E output_dir workflow_path outcome =
     (case outcome of
        Completed returncode out err \<Rightarrow>
          if returncode \<noteq> 0 then (JArr [], False, ''Agentic Radar failed: '' @ err)
          else (case radar_parse_output E
                       (path_join E output_dir (path_stem E workflow_path @ ''_radar''))
                       (path_stem E workflow_path) of
                  Inr findings \<Rightarrow> (findings, True, [])
                | Inl e \<Rightarrow> (JArr [], False, ''Agentic Radar execution error: '' @ exc_str E e))
      | TimeoutExpired \<Rightarrow> (JArr [], False, ''Agentic Radar execution timed out'')
      | FileNotFoundError \<Rightarrow> (JArr [], False, ''Agentic Radar not found. Is it installed?'')
      | OtherException msg \<Rightarrow> (JArr [], False, ''Agentic Radar execution error: '' @ msg))"

definition radar_run :: "env \<Rightarrow> string \<Rightarrow> string \<Rightarrow> json \<times> bool \<times> string" where
  "radar_run E output_dir workflow_path =
     radar_result E output_dir workflow_path
       (subprocess_run E (radar_cmd E output_dir workflow_path))"

subsection \<open>SemgrepExecutor\<close>

text \<open>\<^verbatim>\<open>SemgrepExecutor._parse_output\<close> is \<open>semgrep_parse_output\<close> and
  \<^verbatim>\<open>SemgrepExecutor.run\<close> is \<open>semgrep_run\<close>.\<close>

definition semgrep_finding :: "json \<Rightarrow> pyerr + json" where
  "semgrep_finding result =
     ebind (py_get result ''check_id'' (JStr ''unknown'')) (\<lambda>rule_id.
     ebind (py_get result ''extra'' (JObj [])) (\<lambda>extra.
     ebind (py_get result ''message'' (JStr [])) (\<lambda>top_message.
     ebind (py_get extra ''message'' top_message) (\<lambda>message.
     ebind (py_get extra ''severity'' (JStr ''WARNING'')) (\<lambda>severity.
     ebind (py_get result ''path'' (JStr [])) (\<lambda>path.
     ebind (py_get result ''start'' (JObj [])) (\<lambda>start.
     ebind (py_get start ''line'' (JInt 0)) (\<lambda>line.
     ebind (py_get extra ''lines'' (JStr [])) (\<lambda>code.
     ebind (py_get extra ''metadata'' (JObj [])) (\<lambda>meta.
       Inr (JObj [(''tool'', JStr ''semgrep''), (''rule_id'', rule_id),
                  (''message'', message), (''severity'', severity),
                  (''path'', path), (''line'', line), (''code'', code),
                  (''metadata'', meta)])))))))))))"

fun semgrep_findings_of :: "json list \<Rightarrow> pyerr + json list" where
  "semgrep_findings_of [] = Inr []"
| "semgrep_findings_of (result # rest) =
     (case semgrep_finding result of
        Inl e \<Rightarrow> Inl e
      | Inr f \<Rightarrow> (case semgrep_findings_of rest of
                    Inl e \<Rightarrow> Inl e
                  | Inr fs \<Rightarrow> Inr (f # fs)))"

definition semgrep_parse_output :: "env \<Rightarrow> string \<Rightarrow> pyerr + json" where
  "semgrep_parse_output E out =
     (case json_loads E out of
        JSONDecodeError msg \<Rightarrow> Inr (JArr [])
      | IOError msg \<Rightarrow> Inl (OtherExc msg)
      | OtherError msg \<Rightarrow> Inl (OtherExc msg)
      | Parsed data \<Rightarrow>
          ebind (py_in ''results'' data) (\<lambda>has.
            if has
            then ebind (py_getitem data ''results'') (\<lambda>results.
                 ebind (py_iter results) (\<lambda>rs.
                 ebind (semgrep_findings_of rs) (\<lambda>findings. Inr (JArr findings))))
            else Inr (JArr [])))"

definition semgrep_cmd :: "string \<Rightarrow> string \<Rightarrow> string list" where
  "semgrep_cmd rules workflow_path = [''semgrep'', ''--config'', rules, ''--json'', workflow_path]"

definition semgrep_result :: "env \<Rightarrow> proc_outcome \<Rightarrow> json \<times> bool \<times> string" where
  "semgrep_result E outcome =
     (case outcome of
        Completed returncode out err \<Rightarrow>
          if returncode \<noteq> 0 \<and> returncode \<noteq> 1 then (JArr [], False, ''Semgrep failed: '' @ err)
          else (case semgrep_parse_output E out of
                  Inr findings \<Rightarrow> (findings, True, [])
                | Inl e \<Rightarrow> (JArr [], False, ''Semgrep execution error: '' @ exc_str E e))
      | TimeoutExpired \<Rightarrow> (JArr [], False, ''Semgrep execution timed out'')
      | FileNotFoundError \<Rightarrow> (JArr [], False, ''Semgrep not found. Is it installed?'')
      | OtherException msg \<Rightarrow> (JArr [], False, ''Semgrep execution error: '' @ msg))"

definition semgrep_run :: "env \<Rightarrow> string \<Rightarrow> string \<Rightarrow> json \<times> bool \<times> string" where
  "semgrep_run E rules workflow_path =
     (if \<not> path_exists (files E) rules
      then (JArr [], False, ''Semgrep rules not found: '' @ rules)
      else semgrep_result E (subprocess_run E (semgrep_cmd rules workflow_path)))"

subsection \<open>HybridAnalyzer\<close>

text \<open>
  \<^verbatim>\<open>HybridAnalyzer\<close> holds the output directory of the radar adapter and the rules
  path of the pattern scanner. Every message that \<^verbatim>\<open>analyze\<close> and
  \<^verbatim>\<open>analyze_batch\<close> print is a step of the model, in the order of the source.
  The execution time is a whole number of microseconds.
\<close>

record AnalysisResult =
  workflow_path :: string
  metadata :: WorkflowMetadata
  agentic_radar_findings :: json
  semgrep_findings :: json
  total_findings :: nat
  execution_time :: int
  timestamp :: string

record HybridAnalyzer =
  output_dir :: string
  rules_path :: string

definition new_HybridAnalyzer :: "string option \<Rightarrow> string option \<Rightarrow> HybridAnalyzer" where
  "new_HybridAnalyzer agentic_output_dir semgrep_rules =
     \<lparr>output_dir = (case agentic_output_dir of
                      None \<Rightarrow> ''analysis_output''
                    | Some d \<Rightarrow> if d = [] then ''analysis_output'' else d),
      rules_path = (case semgrep_rules of
                      None \<Rightarrow> ''rules/n8n-generic-patterns.yaml''
                    | Some r \<Rightarrow> if r = [] then ''rules/n8n-generic-patterns.yaml'' else r)\<rparr>"

text \<open>The state a run threads: how many times the clock has been read, and which
  adapter runs were made, oldest first.\<close>

datatype call = RadarRun string | SemgrepRun string

record state =
  ticks :: nat
  calls :: "call list"

definition tick :: "state \<Rightarrow> state" where
  "tick st = st\<lparr>ticks := Suc (ticks st)\<rparr>"

definition called :: "call \<Rightarrow> state \<Rightarrow> state" where
  "called c st = st\<lparr>calls := calls st @ [c]\<rparr>"

text \<open>The line \<^verbatim>\<open>analyze\<close> prints after an adapter has run: the error on failure,
  the number of findings on success, whose \<^verbatim>\<open>len\<close> raises on a value without a
  length.\<close>

definition progress_line :: "string \<Rightarrow> json \<times> bool \<times> string \<Rightarrow> pyerr + string" where
  "progress_line tool r =
     (case r of (findings, success, err) \<Rightarrow>
        if \<not> success then Inr (''[!] '' @ tool @ '' error: '' @ err)
        else ebind (py_len findings) (\<lambda>n.
               Inr (''[+] '' @ tool @ '' completed: '' @ show_nat n @ '' findings'')))"

text \<open>The findings \<^verbatim>\<open>analyze\<close> keeps of an adapter's answer, once the line is
  printed: the empty list on failure.\<close>

definition adapter_report :: "env \<Rightarrow> string \<Rightarrow> json \<times> bool \<times> string \<Rightarrow> pyerr + json" where
  "adapter_report E tool r =
     ebind (progress_line tool r) (\<lambda>line.
     ebind (py_print E line) (\<lambda>u.
       case r of (findings, success, err) \<Rightarrow> Inr (if success then findings else JArr [])))"

text \<open>The texts of the messages, in the order \<^verbatim>\<open>analyze\<close> prints them.\<close>

definition loading_line :: "string \<Rightarrow> string" where
  "loading_line path = nl @ ''[*] Loading workflow: '' @ path"

definition failure_lines :: "string \<Rightarrow> ValidationResult \<Rightarrow> string list" where
  "failure_lines path validation =
     (''[!] Validation failed for '' @ path @ '':'')
     # map (\<lambda>error. ''    ERROR: '' @ error) (errors validation)"

definition warning_lines :: "ValidationResult \<Rightarrow> string list" where
  "warning_lines validation =
     (if warnings validation \<noteq> []
      then ''[!] Validation warnings:''
           # map (\<lambda>warning. ''    WARNING: '' @ warning) (warnings validation)
      else [])"

definition metadata_lines :: "env \<Rightarrow> WorkflowMetadata \<Rightarrow> string list" where
  "metadata_lines E md =
     [''[*] Workflow metadata:'',
      ''    Name: '' @ py_str E (workflow_name md),
      ''    ID: '' @ py_str E (workflow_id md),
      ''    Nodes: '' @ show_nat (node_count md),
      ''    Node types: '' @ show_nat (length (node_types md)),
      nl @ ''[*] Running Agentic Radar analysis...'']"

definition semgrep_banner :: string where
  "semgrep_banner = nl @ ''[*] Running Semgrep analysis...''"

text \<open>The second half of \<^verbatim>\<open>analyze\<close>: both adapters in turn, then the record.\<close>

definition run_adapters ::
  "env \<Rightarrow> HybridAnalyzer \<Rightarrow> string \<Rightarrow> WorkflowMetadata \<Rightarrow> datetime \<Rightarrow> state
     \<Rightarrow> (pyerr + AnalysisResult option) \<times> state" where
  "run_adapters E A path md start_time st1 =
     (let st2 = called (RadarRun path) st1 in
      case adapter_report E ''Agentic Radar'' (radar_run E (output_dir A) path) of
        Inl e \<Rightarrow> (Inl e, st2)
      | Inr radar_findings \<Rightarrow>
     (case py_print E semgrep_banner of
        Inl e \<Rightarrow> (Inl e, st2)
      | Inr u \<Rightarrow>
          (let st3 = called (SemgrepRun path) st2 in
           case adapter_report E ''Semgrep'' (semgrep_run E (rules_path A) path) of
             Inl e \<Rightarrow> (Inl e, st3)
           | Inr semgrep_findings' \<Rightarrow>
               (let end_time = now E (ticks st3); st4 = tick st3 in
                case ebind (py_len radar_findings) (\<lambda>a.
                     ebind (py_len semgrep_findings') (\<lambda>b. Inr (a + b))) of
                  Inl e \<Rightarrow> (Inl e, st4)
                | Inr n_total \<Rightarrow>
                    (Inr (Some \<lparr>workflow_path = path,
                                metadata = md,
                                agentic_radar_findings = radar_findings,
                                semgrep_findings = semgrep_findings',
                                total_findings = n_total,
                                execution_time = micros_between start_time end_time,
                                timestamp = isoformat (now E (ticks st4))\<rparr>),
                     tick st4)))))"

definition analyze ::
  "env \<Rightarrow> HybridAnalyzer \<Rightarrow> string \<Rightarrow> state \<Rightarrow> (pyerr + AnalysisResult option) \<times> state" where
  "analyze E A path st =
     (let start_time = now E (ticks st); st1 = tick st in
      case py_print E (loading_line path) of
        Inl e \<Rightarrow> (Inl e, st1)
      | Inr u \<Rightarrow>
     (case load_workflow (files E) path of
        Inl e \<Rightarrow> (Inl e, st1)
      | Inr (workflow, validation) \<Rightarrow>
          if \<not> valid validation
          then (case print_lines E (failure_lines path validation) of
                  Inl e \<Rightarrow> (Inl e, st1)
                | Inr u \<Rightarrow> (Inr None, st1))
          else
            (case print_lines E (warning_lines validation) of
               Inl e \<Rightarrow> (Inl e, st1)
             | Inr u \<Rightarrow>
            (case (case workflow of
                     None \<Rightarrow> Inl AttributeError
                   | Some w \<Rightarrow> extract_metadata w path) of
               Inl e \<Rightarrow> (Inl e, st1)
             | Inr md \<Rightarrow>
            (case print_lines E (metadata_lines E md) of
               Inl e \<Rightarrow> (Inl e, st1)
             | Inr u \<Rightarrow> run_adapters E A path md start_time st1)))))"




section \<open>Report generation\<close>

text \<open>The report path is taken to be writable; an emitter's result is the document
  it leaves in the file. The line an emitter prints once the document is written
  is not part of the document.\<close>

definition report_record :: "AnalysisResult \<Rightarrow> report_entry" where
  "report_record r =
     \<lparr>re_workflow_path = workflow_path r,
      re_workflow_name = workflow_name (metadata r),
      re_workflow_id = workflow_id (metadata r),
      re_node_count = node_count (metadata r),
      re_node_types = node_types (metadata r),
      re_analysis = \<lparr>ra_agentic_radar_findings = agentic_radar_findings r,
                      ra_semgrep_findings = semgrep_findings r,
                      ra_total_findings = total_findings r,
                      ra_execution_time = execution_time r,
                      ra_timestamp = timestamp r\<rparr>\<rparr>"

definition generate_json_report :: "env \<Rightarrow> AnalysisResult list \<Rightarrow> state \<Rightarrow> string \<times> state" where
  "generate_json_report E results st = (json_dump E (map report_record results), st)"

text \<open>
  The markdown emitter writes piece by piece; an exception while a piece is being
  computed ends the run with the pieces already written left in the file.
\<close>

type_synonym written = "string \<times> pyerr option"

definition emit :: "written \<Rightarrow> pyerr + string \<Rightarrow> written" where
  "emit w piece =
     (case w of
        (doc, Some e) \<Rightarrow> (doc, Some e)
      | (doc, None) \<Rightarrow> (case piece of Inl e \<Rightarrow> (doc, Some e) | Inr t \<Rightarrow> (doc @ t, None)))"

definition radar_line :: "env \<Rightarrow> json \<Rightarrow> pyerr + string" where
  "radar_line E finding =
     ebind (py_get finding ''type'' (JStr ''Unknown'')) (\<lambda>t.
     ebind (py_get finding ''message'' (JStr [])) (\<lambda>m.
       Inr (''- **'' @ py_str E t @ ''**: '' @ py_str E m @ nl)))"

definition semgrep_line :: "env \<Rightarrow> json \<Rightarrow> pyerr + string" where
  "semgrep_line E finding =
     ebind (py_get finding ''severity'' (JStr ''UNKNOWN'')) (\<lambda>severity.
     ebind (py_get finding ''rule_id'' (JStr ''unknown'')) (\<lambda>rule.
     ebind (py_get finding ''message'' (JStr [])) (\<lambda>message.
     ebind (py_get finding ''line'' (JInt 0)) (\<lambda>line.
       Inr (''- **['' @ py_str E severity @ '']** '' @ py_str E rule
            @ '' (line '' @ py_str E line @ ''): '' @ py_str E message @ nl)))))"

definition findings_block ::
  "string \<Rightarrow> (json \<Rightarrow> pyerr + string) \<Rightarrow> json \<Rightarrow> (pyerr + string) list" where
  "findings_block title line findings =
     ebind (py_len findings) (\<lambda>n.
       Inr (''### '' @ title @ '' Findings ('' @ show_nat n @ '')'' @ nl @ nl))
     # (if py_truthy findings
        then (case py_iter findings of Inl e \<Rightarrow> [Inl e] | Inr fs \<Rightarrow> map line fs)
        else [Inr (''No findings.'' @ nl)])
     @ [Inr nl]"

definition workflow_section :: "env \<Rightarrow> nat \<Rightarrow> AnalysisResult \<Rightarrow> (pyerr + string) list" where
  "workflow_section E idx r =
     [Inr (''## Workflow '' @ show_nat idx @ '': '' @ py_str E (workflow_name (metadata r)) @ nl @ nl),
      Inr (''**Path:** `'' @ workflow_path r @ ''`'' @ nl @ nl),
      Inr (''**Metadata:**'' @ nl),
      Inr (''- Workflow ID: '' @ py_str E (workflow_id (metadata r)) @ nl),
      Inr (''- Node count: '' @ show_nat (node_count (metadata r)) @ nl),
      Inr (''- Execution time: '' @ fmt_2f E (execution_time r) @ ''s'' @ nl @ nl)]
     @ findings_block ''Agentic Radar'' (radar_line E) (agentic_radar_findings r)
     @ findings_block ''Semgrep'' (semgrep_line E) (semgrep_findings r)
     @ [Inr (''---'' @ nl @ nl)]"

fun sum_of_lens :: "json list \<Rightarrow> pyerr + nat" where
  "sum_of_lens [] = Inr 0"
| "sum_of_lens (x # xs) =
     (case py_len x of
        Inl e \<Rightarrow> Inl e
      | Inr n \<Rightarrow> (case sum_of_lens xs of Inl e \<Rightarrow> Inl e | Inr k \<Rightarrow> Inr (n + k)))"

definition summary :: "AnalysisResult list \<Rightarrow> pyerr + string" where
  "summary results =
     ebind (sum_of_lens (map agentic_radar_findings results)) (\<lambda>total_radar.
     ebind (sum_of_lens (map semgrep_findings results)) (\<lambda>total_semgrep.
       Inr (''## Summary'' @ nl @ nl
            @ ''- Total findings: '' @ show_nat (sum_list (map total_findings results)) @ nl
            @ ''- Agentic Radar findings: '' @ show_nat total_radar @ nl
            @ ''- Semgrep findings: '' @ show_nat total_semgrep @ nl @ nl)))"

fun sections :: "env \<Rightarrow> nat \<Rightarrow> AnalysisResult list \<Rightarrow> (pyerr + string) list" where
  "sections E idx [] = []"
| "sections E idx (r # rest) = workflow_section E idx r @ sections E (Suc idx) rest"

text \<open>Everything the emitter writes after the line carrying the generation time.\<close>

definition report_body :: "env \<Rightarrow> AnalysisResult list \<Rightarrow> (pyerr + string) list" where
  "report_body E results =
     Inr (''**Total workflows analyzed:** '' @ show_nat (length results) @ nl @ nl)
     # summary results
     # sections E 1 results"

definition generate_markdown_report ::
  "env \<Rightarrow> AnalysisResult list \<Rightarrow> state \<Rightarrow> written \<times> state" where
  "generate_markdown_report E results st =
     (foldl emit ([], None)
        (Inr (''# n8n Workflow Security Analysis Report'' @ nl @ nl)
         # Inr (''**Generated:** '' @ strftime (now E (ticks st)) @ nl @ nl)
         # report_body E results),
      tick st)"

section \<open>Predicates used in the statements\<close>

text \<open>A node that is a record holding all of \<^verbatim>\<open>id\<close>, \<^verbatim>\<open>name\<close> and \<^verbatim>\<open>type\<close>.\<close>

definition node_complete :: "json \<Rightarrow> bool" where
  "node_complete node = (case node of
       JObj kvs \<Rightarrow> ''id'' \<in> set (map fst kvs) \<and> ''name'' \<in> set (map fst kvs) \<and> ''type'' \<in> set (map fst kvs)
     | _ \<Rightarrow> False)"

text \<open>A node the type count can take: a record whose \<^verbatim>\<open>type\<close> (or the default)
  is hashable.\<close>

definition node_countable :: "json \<Rightarrow> bool" where
  "node_countable node = (case node of
       JObj kvs \<Rightarrow> hashable (case map_of kvs ''type'' of Some t \<Rightarrow> t | None \<Rightarrow> JStr ''unknown'')
     | _ \<Rightarrow> False)"

text \<open>The ways a subprocess fails an adapter: it times out, its executable is not
  found, or it exits with a code the adapter does not allow. The radar adapter
  allows 0, the pattern scanner 0 and 1.\<close>

datatype failure = Timeout | NotFound | BadExit

definition failure_of :: "(int \<Rightarrow> bool) \<Rightarrow> proc_outcome \<Rightarrow> failure option" where
  "failure_of allowed outcome = (case outcome of
       Completed returncode out err \<Rightarrow> if allowed returncode then None else Some BadExit
     | TimeoutExpired \<Rightarrow> Some Timeout
     | FileNotFoundError \<Rightarrow> Some NotFound
     | OtherException msg \<Rightarrow> None)"

definition radar_ok :: "int \<Rightarrow> bool" where
  "radar_ok returncode = (returncode = 0)"

definition semgrep_ok :: "int \<Rightarrow> bool" where
  "semgrep_ok returncode = (returncode = 0 \<or> returncode = 1)"

text \<open>The adapter runs made between two states of a run.\<close>

definition new_calls :: "state \<Rightarrow> state \<Rightarrow> call list" where
  "new_calls st st' = drop (length (calls st)) (calls st')"


text \<open>A line that is computed without raising and that standard output takes.\<close>

definition printable :: "env \<Rightarrow> pyerr + string \<Rightarrow> bool" where
  "printable E x = (case x of Inr line \<Rightarrow> stdout_accepts E line | Inl e \<Rightarrow> False)"

section \<open>Example inputs\<close>

text \<open>Concrete documents, file systems and environments at which the theorems
  below are evaluated.\<close>

definition doc_nodes_only :: json where
  "doc_nodes_only = JObj [(''nodes'', JArr [])]"

definition doc_scenario :: json where
  "doc_scenario =
     JObj [(''nodes'', JArr [JObj [(''id'', JStr ''1''), (''name'', JStr ''A''), (''type'', JStr ''http'')],
                             JObj [(''id'', JStr ''2''), (''name'', JStr ''B''), (''type'', JStr ''http'')]]),
           (''connections'', JObj [(''1'', JObj [(''main'', JArr [JArr [JStr ''2'']])]),
                                   (''2'', JArr [])])]"

definition fs_one :: "json \<Rightarrow> string \<Rightarrow> fsnode" where
  "fs_one doc p = (if p = ''w.json'' then Present Regular (Parsed doc) else Absent)"

definition env0 :: env where
  "env0 = \<lparr>files = (\<lambda>p. Absent),
           subprocess_run = (\<lambda>cmd. FileNotFoundError),
           json_loads = (\<lambda>s. JSONDecodeError ''Expecting value''),
           glob = (\<lambda>d pat. []),
           now = (\<lambda>n. \<lparr>dt_year = 2025, dt_month = 1, dt_day = 1, dt_hour = 0,
                         dt_minute = 0, dt_second = n, dt_microsecond = 0\<rparr>),
           path_stem = (\<lambda>p. ''wf''),
           path_join = (\<lambda>d n. d @ ''/'' @ n),
           exc_str = (\<lambda>e. ''error''),
           py_repr = (\<lambda>v. ''?''),
           fmt_2f = (\<lambda>i. show_int (i div 1000000)),
           json_dump = (\<lambda>rs. show_nat (length rs)),
           stdout_accepts = (\<lambda>t. True)\<rparr>"


definition env_radar_timeout :: env where
  "env_radar_timeout =
     env0\<lparr>files := (\<lambda>p. if p = ''w.json'' then Present Regular (Parsed doc_scenario)
                        else if p = ''rules.yaml'' then Present Regular (OtherError ''not JSON'')
                        else Absent),
          subprocess_run := (\<lambda>cmd. case cmd of
                                [] \<Rightarrow> FileNotFoundError
                              | c # args \<Rightarrow> if c = ''semgrep'' then Completed 1 ''{}'' []
                                            else TimeoutExpired),
          json_loads := (\<lambda>s. Parsed (JObj [(''results'',
                                  JArr [JObj [(''check_id'', JStr ''rule-1'')]])]))\<rparr>"

definition env_semgrep_missing :: env where
  "env_semgrep_missing =
     env0\<lparr>files := (\<lambda>p. if p = ''w.json'' then Present Regular (Parsed doc_scenario)
                        else if p = ''rules.yaml'' then Present Regular (OtherError ''not JSON'')
                        else if p = ''out/wf_radar/wf.html'' then Present Regular (OtherError ''not JSON'')
                        else Absent),
          subprocess_run := (\<lambda>cmd. case cmd of
                                [] \<Rightarrow> FileNotFoundError
                              | c # args \<Rightarrow> if c = ''semgrep'' then FileNotFoundError
                                            else Completed 0 [] [])\<rparr>"


definition analyzer0 :: HybridAnalyzer where
  "analyzer0 = \<lparr>output_dir = ''out'', rules_path = ''rules.yaml''\<rparr>"

definition st0 :: state where
  "st0 = \<lparr>ticks = 0, calls = []\<rparr>"


text \<open>A terminal that cannot encode the letter e with an acute accent (byte
  \<open>0xE9\<close>), and a radar tool that exits with code 2 and that letter in its
  standard error.\<close>

definition env_narrow_stdout :: env where
  "env_narrow_stdout =
     env0\<lparr>files := (\<lambda>p. if p = ''w.json'' then Present Regular (Parsed doc_scenario)
                        else Absent),
          subprocess_run := (\<lambda>cmd. Completed 2 [] (''caf'' @ [CHR 0xE9])),
          stdout_accepts := (\<lambda>t. CHR 0xE9 \<notin> set t)\<rparr>"

text \<open>A JSON artifact whose \<^verbatim>\<open>findings\<close> is \<^verbatim>\<open>null\<close>, beside an HTML report.\<close>

definition env_null_findings :: env where
  "env_null_findings =
     env0\<lparr>files := (\<lambda>p. if p = ''out/wf.json''
                        then Present Regular (Parsed (JObj [(''findings'', JNull)]))
                        else if p = ''out/wf.html'' then Present Regular (OtherError ''not JSON'')
                        else Absent)\<rparr>"

section \<open>Basic facts\<close>

lemma ebind_Inr_iff: "ebind m f = Inr y \<longleftrightarrow> (\<exists>x. m = Inr x \<and> f x = Inr y)"
  by (cases m) (simp_all add: ebind_def)

lemma ebind_Inl_iff: "ebind m f = Inl e \<longleftrightarrow> (m = Inl e \<or> (\<exists>x. m = Inr x \<and> f x = Inl e))"
  by (cases m) (simp_all add: ebind_def)

lemma ebind_simps [simp]: "ebind (Inr x) f = f x" "ebind (Inl e) f = Inl e"
  by (simp_all add: ebind_def)

lemma check_nodes_inv:
  assumes "check_nodes doc = Inr r"
  shows "valid r = (errors r = [])"
proof (cases "py_in ''nodes'' doc")
  case (Inl e)
  with assms show ?thesis by (simp add: check_nodes_def)
next
  case present: (Inr b)
  show ?thesis
  proof (cases b)
    case False
    with present assms show ?thesis by (auto simp: check_nodes_def)
  next
    case True
    show ?thesis
    proof (cases "py_getitem doc ''nodes''")
      case (Inl e)
      with True present assms show ?thesis by (simp add: check_nodes_def)
    next
      case (Inr nodes)
      with True present assms show ?thesis
        by (cases nodes) (auto simp: check_nodes_def)
    qed
  qed
qed

lemma check_connections_keeps:
  "check_connections doc r = Inr v \<Longrightarrow> valid v = valid r \<and> errors v = errors r"
  by (auto simp: check_connections_def ebind_Inr_iff split: if_splits)

lemma validate_inv: "validate_structure doc = Inr v \<Longrightarrow> valid v = (errors v = [])"
  by (auto simp: validate_structure_def ebind_Inr_iff dest!: check_connections_keeps check_nodes_inv)

lemma load_inv: "load_workflow fs path = Inr (d, v) \<Longrightarrow> valid v = (errors v = [])"
  by (auto simp: load_workflow_def ebind_Inr_iff split: if_splits read_result.splits dest: validate_inv)

lemma node_warnings_complete:
  "list_all node_complete ns \<Longrightarrow> node_warnings idx ns = []"
  by (induction ns arbitrary: idx)
     (auto simp: node_complete_def missing_field_warnings_def split: json.splits)

lemma dict_set_sum:
  "sum_list (map snd (dict_set acc k v)) + dict_get acc k 0 = sum_list (map snd acc) + v"
  by (induction acc) auto

lemma count_node_types_sum:
  "count_node_types acc ns = Inr types \<Longrightarrow>
     sum_list (map snd types) = sum_list (map snd acc) + length ns"
proof (induction ns arbitrary: acc)
  case Nil
  then show ?case by simp
next
  case (Cons node rest)
  from Cons.prems obtain t where
    t: "py_get node ''type'' (JStr ''unknown'') = Inr t" and h: "hashable t"
    and rec: "count_node_types (dict_set acc t (dict_get acc t 0 + 1)) rest = Inr types"
    by (auto split: sum.splits if_splits)
  from Cons.IH [OF rec] dict_set_sum [of acc t "dict_get acc t 0 + 1"]
  show ?case by simp
qed

lemma valid_nodes_list:
  assumes "validate_structure doc = Inr v" and "valid v"
  shows "\<exists>ns. py_getitem doc ''nodes'' = Inr (JArr ns)"
proof -
  from assms(1) obtain r where r: "check_nodes doc = Inr r" and c: "check_connections doc r = Inr v"
    by (auto simp: validate_structure_def ebind_Inr_iff)
  from check_connections_keeps [OF c] assms(2) have vr: "valid r" by simp
  show ?thesis
  proof (cases "py_in ''nodes'' doc")
    case (Inl e)
    with r show ?thesis by (simp add: check_nodes_def)
  next
    case present: (Inr b)
    show ?thesis
    proof (cases b)
      case False
      with present r vr show ?thesis by (auto simp: check_nodes_def)
    next
      case True
      show ?thesis
      proof (cases "py_getitem doc ''nodes''")
        case (Inl e)
        with True present r show ?thesis by (simp add: check_nodes_def)
      next
        case (Inr nodes)
        with True present r vr show ?thesis
          by (cases nodes) (auto simp: check_nodes_def)
      qed
    qed
  qed
qed

lemma getitem_get: "py_getitem doc k = Inr x \<Longrightarrow> py_get doc k dflt = Inr x"
  by (cases doc) (auto simp: py_getitem_def py_get_def split: option.splits)

lemma sum_lens_total:
  "sum_lens vals = Inr (sum_list (map (\<lambda>v. case v of JObj inner \<Rightarrow> length inner | _ \<Rightarrow> 0) vals))"
  by (induction vals) (auto simp: is_dict_def py_len_def split: json.splits)

lemma count_node_types_total:
  "list_all node_countable ns \<Longrightarrow> \<exists>types. count_node_types acc ns = Inr types"
proof (induction ns arbitrary: acc)
  case Nil
  then show ?case by simp
next
  case (Cons node rest)
  from Cons.prems obtain kvs where n: "node = JObj kvs"
    and h: "hashable (case map_of kvs ''type'' of Some t \<Rightarrow> t | None \<Rightarrow> JStr ''unknown'')"
    by (cases node) (auto simp: node_countable_def)
  from Cons.prems have "list_all node_countable rest" by simp
  from Cons.IH [OF this] n h show ?case by (simp add: py_get_def)
qed

lemma extract_metadata_total:
  assumes "py_get (JObj kvs) ''nodes'' (JArr []) = Inr (JArr ns)"
    and "list_all node_countable ns"
    and "py_get (JObj kvs) ''connections'' (JObj []) = Inr (JObj c)"
  shows "\<exists>m. extract_metadata (JObj kvs) fp = Inr m
           \<and> workflow_id m = (case map_of kvs ''id'' of Some x \<Rightarrow> x | None \<Rightarrow> JStr ''unknown'')
           \<and> workflow_name m = (case map_of kvs ''name'' of Some x \<Rightarrow> x | None \<Rightarrow> JStr ''unnamed'')
           \<and> node_count m = length ns
           \<and> (ns = [] \<longrightarrow> node_types m = [])"
proof -
  from count_node_types_total [OF assms(2)] obtain types where
    t: "count_node_types [] ns = Inr types" by blast
  have t0: "ns = [] \<longrightarrow> types = []" using t by auto
  have n: "node_type_counts (JObj kvs) = Inr types"
    using assms(1) t by (simp add: node_type_counts_def py_iter_def)
  have c: "count_connections (JObj c)
      = Inr (sum_list (map (\<lambda>v. case v of JObj inner \<Rightarrow> length inner | _ \<Rightarrow> 0) (map snd c)))"
    by (simp add: count_connections_def py_values_def sum_lens_total)
  show ?thesis
    using assms(1,3) n c t0
    by (simp add: extract_metadata_def py_len_def py_in_def) (simp add: py_get_def)
qed

lemma load_workflow_failures:
  "\<not> path_exists fs p \<Longrightarrow>
     load_workflow fs p
       = Inr (None, \<lparr>valid = False, errors = [''File not found: '' @ p], warnings = []\<rparr>)"
  "path_exists fs p \<Longrightarrow> \<not> path_isfile fs p \<Longrightarrow>
     load_workflow fs p
       = Inr (None, \<lparr>valid = False, errors = [''Path is not a file: '' @ p], warnings = []\<rparr>)"
  "path_isfile fs p \<Longrightarrow> read_json fs p = JSONDecodeError msg \<Longrightarrow>
     load_workflow fs p
       = Inr (None, \<lparr>valid = False, errors = [''Invalid JSON syntax: '' @ msg], warnings = []\<rparr>)"
  "path_isfile fs p \<Longrightarrow> read_json fs p = IOError msg \<Longrightarrow>
     load_workflow fs p
       = Inr (None, \<lparr>valid = False, errors = [''Cannot read file: '' @ msg], warnings = []\<rparr>)"
  "path_isfile fs p \<Longrightarrow> read_json fs p = Parsed doc \<Longrightarrow>
   validate_structure doc = Inr v \<Longrightarrow> \<not> valid v \<Longrightarrow>
     load_workflow fs p = Inr (Some doc, v)"
  by (auto simp: load_workflow_def path_exists_def path_isfile_def
           split: fsnode.splits fkind.splits)

lemma validate_structure_total_on_dict:
  "\<exists>v. validate_structure (JObj kvs) = Inr v"
proof -
  have "\<exists>r. check_nodes (JObj kvs) = Inr r"
    by (cases "''nodes'' \<in> set (map fst kvs)")
       (auto simp: check_nodes_def py_in_def py_getitem_def map_of_eq_None_iff
             split: option.splits json.splits)
  moreover have "\<exists>v. check_connections (JObj kvs) r = Inr v" for r
    by (cases "''connections'' \<in> set (map fst kvs)")
       (auto simp: check_connections_def py_in_def py_getitem_def map_of_eq_None_iff
             split: option.splits)
  ultimately show ?thesis by (auto simp: validate_structure_def)
qed

lemma validate_structure_raises_on_scalar:
  "validate_structure (JInt 5) = Inl TypeError"
  by (simp add: validate_structure_def check_nodes_def py_in_def)

lemma validate_doc_scenario:
  "validate_structure doc_scenario = Inr \<lparr>valid = True, errors = [], warnings = []\<rparr>"
  by (simp add: doc_scenario_def validate_structure_def check_nodes_def check_connections_def
      py_in_def py_getitem_def is_dict_def missing_field_warnings_def)

lemma extract_doc_scenario:
  "extract_metadata doc_scenario ''w.json''
     = Inr \<lparr>filepath = ''w.json'', workflow_id = JStr ''unknown'', workflow_name = JStr ''unnamed'',
            node_count = 2, node_types = [(JStr ''http'', 2)], has_connections = True,
            connections_count = 1\<rparr>"
  by (simp add: doc_scenario_def extract_metadata_def node_type_counts_def py_get_def py_iter_def
      hashable_def key_eq_def num_of_def count_connections_def py_values_def is_dict_def
      py_len_def py_in_def)

lemma py_append_neq: "py_append f x \<noteq> Inr f"
  by (cases f) (simp_all add: py_append_def)

lemma print_lines_eq:
  "print_lines E ts = (if list_all (stdout_accepts E) ts then Inr () else Inl UnicodeEncodeError)"
  by (induction ts) (simp_all add: py_print_def)

lemma radar_result_failed:
  "failure_of radar_ok outcome = Some k \<Longrightarrow>
     \<exists>msg. radar_result E d p outcome = (JArr [], False, msg)"
  by (cases outcome) (auto simp: failure_of_def radar_ok_def radar_result_def split: if_splits)

lemma semgrep_result_failed:
  "failure_of semgrep_ok outcome = Some k \<Longrightarrow>
     \<exists>msg. semgrep_result E outcome = (JArr [], False, msg)"
  by (cases outcome) (auto simp: failure_of_def semgrep_ok_def semgrep_result_def split: if_splits)

lemma radar_messages_distinct:
  "failure_of radar_ok o1 = Some k1 \<Longrightarrow> failure_of radar_ok o2 = Some k2 \<Longrightarrow> k1 \<noteq> k2 \<Longrightarrow>
     snd (snd (radar_result E d p o1)) \<noteq> snd (snd (radar_result E d p o2))"
  by (cases o1; cases o2)
     (auto simp: failure_of_def radar_ok_def radar_result_def split: if_splits)

lemma semgrep_messages_distinct:
  "failure_of semgrep_ok o1 = Some k1 \<Longrightarrow> failure_of semgrep_ok o2 = Some k2 \<Longrightarrow> k1 \<noteq> k2 \<Longrightarrow>
     snd (snd (semgrep_result E o1)) \<noteq> snd (snd (semgrep_result E o2))"
  by (cases o1; cases o2)
     (auto simp: failure_of_def semgrep_ok_def semgrep_result_def split: if_splits)

lemma semgrep_parse_output_list:
  "semgrep_parse_output E out = Inr f \<Longrightarrow> \<exists>xs. f = JArr xs"
  by (auto simp: semgrep_parse_output_def ebind_Inr_iff split: read_result.splits if_splits)

lemma semgrep_run_shape:
  "(\<exists>xs. fst (semgrep_run E rules p) = JArr xs)
   \<and> (\<not> fst (snd (semgrep_run E rules p)) \<longrightarrow> fst (semgrep_run E rules p) = JArr [])"
proof (cases "path_exists (files E) rules")
  case False
  then show ?thesis by (simp add: semgrep_run_def)
next
  case True
  have "(\<exists>xs. fst (semgrep_result E outcome) = JArr xs)
        \<and> (\<not> fst (snd (semgrep_result E outcome)) \<longrightarrow> fst (semgrep_result E outcome) = JArr [])"
    for outcome
  proof (cases outcome)
    case (Completed rc out err)
    show ?thesis
    proof (cases "semgrep_parse_output E out")
      case (Inl e)
      with Completed show ?thesis by (simp add: semgrep_result_def)
    next
      case (Inr f)
      with semgrep_parse_output_list [OF Inr] Completed show ?thesis
        by (auto simp: semgrep_result_def)
    qed
  qed (simp_all add: semgrep_result_def)
  with True show ?thesis by (simp add: semgrep_run_def)
qed

lemma semgrep_report:
  assumes "printable E (progress_line tool (semgrep_run E rules p))"
  shows "adapter_report E tool (semgrep_run E rules p) = Inr (fst (semgrep_run E rules p))"
proof -
  obtain f ok msg where r: "semgrep_run E rules p = (f, ok, msg)"
    by (cases "semgrep_run E rules p")
  from semgrep_run_shape [of E rules p] r obtain xs where
    xs: "f = JArr xs" and e: "\<not> ok \<longrightarrow> f = JArr []" by auto
  from assms r xs e show ?thesis
    by (cases ok)
       (auto simp: adapter_report_def progress_line_def printable_def py_print_def py_len_def)
qed

lemma radar_run_shape:
  "\<not> fst (snd (radar_run E d p)) \<longrightarrow> fst (radar_run E d p) = JArr []"
  unfolding radar_run_def
  by (cases "subprocess_run E (radar_cmd E d p)")
     (auto simp: radar_result_def split: if_splits sum.splits)

lemma radar_report_kept:
  assumes "adapter_report E tool (radar_run E d p) = Inr f"
  shows "f = fst (radar_run E d p) \<and> (\<exists>n. py_len f = Inr n)"
proof -
  obtain g ok msg where r: "radar_run E d p = (g, ok, msg)"
    by (cases "radar_run E d p")
  from radar_run_shape [of E d p] r have e: "\<not> ok \<longrightarrow> g = JArr []" by simp
  from assms r e show ?thesis
    by (cases ok)
       (auto simp: adapter_report_def progress_line_def ebind_Inr_iff py_len_def)
qed

lemma failed_report:
  assumes "r = (JArr [], False, msg)" and "printable E (progress_line tool r)"
  shows "adapter_report E tool r = Inr (JArr [])"
  using assms
  by (simp add: adapter_report_def progress_line_def printable_def py_print_def)

lemma semgrep_run_failed:
  "path_exists (files E) rules \<Longrightarrow>
   failure_of semgrep_ok (subprocess_run E (semgrep_cmd rules p)) = Some k \<Longrightarrow>
     \<exists>msg. semgrep_run E rules p = (JArr [], False, msg)"
  using semgrep_result_failed [of "subprocess_run E (semgrep_cmd rules p)" k E]
  by (auto simp: semgrep_run_def)

lemma radar_run_failed:
  "failure_of radar_ok (subprocess_run E (radar_cmd E d p)) = Some k \<Longrightarrow>
     \<exists>msg. radar_run E d p = (JArr [], False, msg)"
  using radar_result_failed [of "subprocess_run E (radar_cmd E d p)" k E d p]
  by (auto simp: radar_run_def)

lemma analyze_structure:
  "(\<exists>e. analyze E A p st = (Inl e, tick st))
   \<or> (\<exists>d v. load_workflow (files E) p = Inr (d, v) \<and> \<not> valid v
          \<and> analyze E A p st = (Inr None, tick st))
   \<or> (\<exists>w v md. load_workflow (files E) p = Inr (Some w, v) \<and> valid v
           \<and> extract_metadata w p = Inr md
           \<and> py_print E (loading_line p) = Inr ()
           \<and> print_lines E (warning_lines v) = Inr ()
           \<and> print_lines E (metadata_lines E md) = Inr ())"
proof (cases "py_print E (loading_line p)")
  case (Inl e)
  then show ?thesis by (simp add: analyze_def Let_def)
next
  case p1: (Inr u)
  show ?thesis
  proof (cases "load_workflow (files E) p")
    case (Inl e)
    with p1 show ?thesis by (simp add: analyze_def Let_def)
  next
    case (Inr dv)
    obtain d v where dv: "dv = (d, v)" by (cases dv)
    show ?thesis
    proof (cases "valid v")
      case False
      show ?thesis
      proof (cases "print_lines E (failure_lines p v)")
        case (Inl e)
        with p1 Inr dv False show ?thesis
          by (simp add: analyze_def Let_def del: print_lines.simps)
      next
        case (Inr u1)
        with p1 \<open>load_workflow (files E) p = Inr dv\<close> dv False show ?thesis
          by (simp add: analyze_def Let_def del: print_lines.simps)
      qed
    next
      case True
      show ?thesis
      proof (cases "print_lines E (warning_lines v)")
        case (Inl e)
        with p1 Inr dv True show ?thesis
          by (simp add: analyze_def Let_def del: print_lines.simps)
      next
        case p2: (Inr u2)
        show ?thesis
        proof (cases d)
          case None
          with p1 Inr dv True p2 show ?thesis
            by (simp add: analyze_def Let_def del: print_lines.simps)
        next
          case (Some w)
          show ?thesis
          proof (cases "extract_metadata w p")
            case (Inl e)
            with p1 Inr dv True p2 Some show ?thesis
              by (simp add: analyze_def Let_def del: print_lines.simps)
          next
            case md: (Inr md)
            show ?thesis
            proof (cases "print_lines E (metadata_lines E md)")
              case (Inl e)
              with p1 Inr dv True p2 Some md show ?thesis
                by (simp add: analyze_def Let_def del: print_lines.simps)
            next
              case p3: (Inr u3)
              from p1 Inr dv True p2 Some md p3 show ?thesis by simp
            qed
          qed
        qed
      qed
    qed
  qed
qed

lemma analyze_after_radar:
  assumes "load_workflow (files E) p = Inr (Some w, v)" and "valid v"
    and "extract_metadata w p = Inr md"
    and "py_print E (loading_line p) = Inr ()"
    and "print_lines E (warning_lines v) = Inr ()"
    and "print_lines E (metadata_lines E md) = Inr ()"
  shows "analyze E A p st = run_adapters E A p md (now E (ticks st)) (tick st)"
  using assms by (simp add: analyze_def Let_def)


lemma run_adapters_calls:
  "new_calls st (snd (run_adapters E A p md t (tick st)))
     = (case adapter_report E ''Agentic Radar'' (radar_run E (output_dir A) p) of
          Inl e \<Rightarrow> [RadarRun p]
        | Inr rf \<Rightarrow> (case py_print E semgrep_banner of
                       Inl e \<Rightarrow> [RadarRun p]
                     | Inr u \<Rightarrow> [RadarRun p, SemgrepRun p]))"
  by (simp add: run_adapters_def Let_def new_calls_def tick_def called_def split: sum.splits)

lemma run_adapters_result:
  assumes "adapter_report E ''Agentic Radar'' (radar_run E (output_dir A) p) = Inr rf"
    and "py_print E semgrep_banner = Inr ()"
    and "adapter_report E ''Semgrep'' (semgrep_run E (rules_path A) p) = Inr sf"
    and "py_len rf = Inr a" and "py_len sf = Inr b"
  shows "run_adapters E A p md t st1
     = (Inr (Some \<lparr>workflow_path = p, metadata = md,
                   agentic_radar_findings = rf, semgrep_findings = sf,
                   total_findings = a + b,
                   execution_time = micros_between t
                      (now E (ticks (called (SemgrepRun p) (called (RadarRun p) st1)))),
                   timestamp = isoformat (now E (ticks
                      (tick (called (SemgrepRun p) (called (RadarRun p) st1)))))\<rparr>),
        tick (tick (called (SemgrepRun p) (called (RadarRun p) st1))))"
  using assms by (simp add: run_adapters_def Let_def)

lemma new_calls_simps:
  "new_calls st (tick st) = []"
  "new_calls st (called c (tick st)) = [c]"
  "new_calls st (called c' (called c (tick st))) = [c, c']"
  "new_calls st (tick (called c' (called c (tick st)))) = [c, c']"
  "new_calls st (tick (tick (called c' (called c (tick st))))) = [c, c']"
  by (simp_all add: new_calls_def tick_def called_def)

lemma accepts_all:
  assumes "stdout_accepts E = (\<lambda>t. True)"
  shows "py_print E t = Inr ()" and "print_lines E ts = Inr ()"
  using assms by (simp_all add: py_print_def print_lines_eq list_all_iff)



lemma analyze_radar_invoked:
  assumes "RadarRun p \<in> set (new_calls st (snd (analyze E A p st)))"
  shows "\<exists>w v md. load_workflow (files E) p = Inr (Some w, v) \<and> valid v
           \<and> extract_metadata w p = Inr md
           \<and> py_print E (loading_line p) = Inr ()
           \<and> print_lines E (warning_lines v) = Inr ()
           \<and> print_lines E (metadata_lines E md) = Inr ()"
  using analyze_structure [of E A p st] assms
  by (auto simp: new_calls_simps)

lemma analyze_semgrep_invoked:
  assumes "SemgrepRun p \<in> set (new_calls st (snd (analyze E A p st)))"
  shows "\<exists>w v md rf. load_workflow (files E) p = Inr (Some w, v) \<and> valid v
           \<and> extract_metadata w p = Inr md
           \<and> py_print E (loading_line p) = Inr ()
           \<and> print_lines E (warning_lines v) = Inr ()
           \<and> print_lines E (metadata_lines E md) = Inr ()
           \<and> adapter_report E ''Agentic Radar'' (radar_run E (output_dir A) p) = Inr rf
           \<and> py_print E semgrep_banner = Inr ()"
proof -
  from analyze_structure [of E A p st] assms obtain w v md where
    f: "load_workflow (files E) p = Inr (Some w, v) \<and> valid v
           \<and> extract_metadata w p = Inr md
           \<and> py_print E (loading_line p) = Inr ()
           \<and> print_lines E (warning_lines v) = Inr ()
           \<and> print_lines E (metadata_lines E md) = Inr ()"
    by (auto simp: new_calls_simps)
  then have l: "load_workflow (files E) p = Inr (Some w, v)" and v: "valid v"
    and m: "extract_metadata w p = Inr md"
    and p1: "py_print E (loading_line p) = Inr ()"
    and p2: "print_lines E (warning_lines v) = Inr ()"
    and p3: "print_lines E (metadata_lines E md) = Inr ()"
    by blast+
  from assms have c: "SemgrepRun p \<in> set (new_calls st
      (snd (run_adapters E A p md (now E (ticks st)) (tick st))))"
    unfolding analyze_after_radar [OF l v m p1 p2 p3] .
  show ?thesis
  proof (cases "adapter_report E ''Agentic Radar'' (radar_run E (output_dir A) p)")
    case (Inl e)
    with c show ?thesis by (simp add: run_adapters_calls)
  next
    case rf: (Inr rf)
    show ?thesis
    proof (cases "py_print E semgrep_banner")
      case (Inl e)
      with c rf show ?thesis by (simp add: run_adapters_calls)
    next
      case (Inr u)
      with rf f show ?thesis by auto
    qed
  qed
qed

lemma load_doc_scenario:
  "load_workflow (\<lambda>p. if p = ''w.json'' then Present Regular (Parsed doc_scenario) else g p) ''w.json''
     = Inr (Some doc_scenario, \<lparr>valid = True, errors = [], warnings = []\<rparr>)"
  by (simp add: load_workflow_def path_exists_def path_isfile_def read_json_def
      validate_doc_scenario)

lemma semgrep_env_radar_timeout:
  "semgrep_run env_radar_timeout ''rules.yaml'' ''w.json''
     = (JArr [JObj [(''tool'', JStr ''semgrep''), (''rule_id'', JStr ''rule-1''),
                    (''message'', JStr []), (''severity'', JStr ''WARNING''),
                    (''path'', JStr []), (''line'', JInt 0), (''code'', JStr []),
                    (''metadata'', JObj [])]], True, [])"
  by (simp add: env_radar_timeout_def env0_def semgrep_run_def semgrep_cmd_def path_exists_def
      semgrep_result_def semgrep_parse_output_def py_in_def py_getitem_def py_iter_def
      semgrep_finding_def py_get_def)

lemma radar_env_radar_timeout:
  "radar_run env_radar_timeout ''out'' ''w.json'' = (JArr [], False, ''Agentic Radar execution timed out'')"
  by (simp add: env_radar_timeout_def env0_def radar_run_def radar_cmd_def radar_result_def)

lemma analyze_env_radar_timeout:
  "analyze env_radar_timeout analyzer0 ''w.json'' st0
     = (Inr (Some \<lparr>workflow_path = ''w.json'',
                   metadata = \<lparr>filepath = ''w.json'', workflow_id = JStr ''unknown'',
                     workflow_name = JStr ''unnamed'', node_count = 2,
                     node_types = [(JStr ''http'', 2)], has_connections = True,
                     connections_count = 1\<rparr>,
                   agentic_radar_findings = JArr [],
                   semgrep_findings = JArr [JObj [(''tool'', JStr ''semgrep''), (''rule_id'', JStr ''rule-1''),
                    (''message'', JStr []), (''severity'', JStr ''WARNING''),
                    (''path'', JStr []), (''line'', JInt 0), (''code'', JStr []),
                    (''metadata'', JObj [])]],
                   total_findings = 1,
                   execution_time = micros_between (now env_radar_timeout 0) (now env_radar_timeout 1),
                   timestamp = isoformat (now env_radar_timeout 2)\<rparr>),
        \<lparr>ticks = 3, calls = [RadarRun ''w.json'', SemgrepRun ''w.json'']\<rparr>)"
proof -
  have l: "load_workflow (files env_radar_timeout) ''w.json''
     = Inr (Some doc_scenario, \<lparr>valid = True, errors = [], warnings = []\<rparr>)"
    unfolding env_radar_timeout_def env0_def by (simp add: load_doc_scenario)
  have a: "stdout_accepts env_radar_timeout = (\<lambda>t. True)"
    by (simp add: env_radar_timeout_def env0_def)
  note pa = accepts_all [OF a]
  have eq: "analyze env_radar_timeout analyzer0 ''w.json'' st0
    = run_adapters env_radar_timeout analyzer0 ''w.json''
        \<lparr>filepath = ''w.json'', workflow_id = JStr ''unknown'',
                     workflow_name = JStr ''unnamed'', node_count = 2,
                     node_types = [(JStr ''http'', 2)], has_connections = True,
                     connections_count = 1\<rparr>
        (now env_radar_timeout (ticks st0)) (tick st0)"
    by (rule analyze_after_radar [OF l _ extract_doc_scenario pa(1) pa(2) pa(2)]) simp
  have r: "adapter_report env_radar_timeout ''Agentic Radar''
             (radar_run env_radar_timeout (output_dir analyzer0) ''w.json'') = Inr (JArr [])"
    by (simp add: analyzer0_def radar_env_radar_timeout adapter_report_def progress_line_def pa)
  have s: "adapter_report env_radar_timeout ''Semgrep''
             (semgrep_run env_radar_timeout (rules_path analyzer0) ''w.json'')
     = Inr (JArr [JObj [(''tool'', JStr ''semgrep''), (''rule_id'', JStr ''rule-1''),
                    (''message'', JStr []), (''severity'', JStr ''WARNING''),
                    (''path'', JStr []), (''line'', JInt 0), (''code'', JStr []),
                    (''metadata'', JObj [])]])"
    by (simp add: analyzer0_def semgrep_env_radar_timeout adapter_report_def progress_line_def
        pa py_len_def)
  show ?thesis
    unfolding eq
    by (subst run_adapters_result [OF r pa(1) s, of 0 1])
       (simp_all add: py_len_def st0_def tick_def called_def numeral_3_eq_3 numeral_2_eq_2)
qed

lemma analyze_env_semgrep_missing:
  "analyze env_semgrep_missing analyzer0 ''w.json'' st0
     = (Inr (Some \<lparr>workflow_path = ''w.json'',
                   metadata = \<lparr>filepath = ''w.json'', workflow_id = JStr ''unknown'',
                     workflow_name = JStr ''unnamed'', node_count = 2,
                     node_types = [(JStr ''http'', 2)], has_connections = True,
                     connections_count = 1\<rparr>,
                   agentic_radar_findings = JArr [synthetic_finding ''out/wf_radar/wf.html''],
                   semgrep_findings = JArr [],
                   total_findings = 1,
                   execution_time = micros_between (now env_semgrep_missing 0) (now env_semgrep_missing 1),
                   timestamp = isoformat (now env_semgrep_missing 2)\<rparr>),
        \<lparr>ticks = 3, calls = [RadarRun ''w.json'', SemgrepRun ''w.json'']\<rparr>)"
proof -
  have l: "load_workflow (files env_semgrep_missing) ''w.json''
     = Inr (Some doc_scenario, \<lparr>valid = True, errors = [], warnings = []\<rparr>)"
    unfolding env_semgrep_missing_def env0_def by (simp add: load_doc_scenario)
  have rr: "radar_run env_semgrep_missing ''out'' ''w.json''
     = (JArr [synthetic_finding ''out/wf_radar/wf.html''], True, [])"
    by (simp add: env_semgrep_missing_def env0_def radar_run_def radar_cmd_def radar_result_def
        radar_parse_output_def radar_json_findings_def path_exists_def py_truthy_def
        py_append_def Let_def)
  have sr: "semgrep_run env_semgrep_missing ''rules.yaml'' ''w.json''
     = (JArr [], False, ''Semgrep not found. Is it installed?'')"
    by (simp add: env_semgrep_missing_def env0_def semgrep_run_def semgrep_cmd_def
        path_exists_def semgrep_result_def)
  have a: "stdout_accepts env_semgrep_missing = (\<lambda>t. True)"
    by (simp add: env_semgrep_missing_def env0_def)
  note pa = accepts_all [OF a]
  have eq: "analyze env_semgrep_missing analyzer0 ''w.json'' st0
    = run_adapters env_semgrep_missing analyzer0 ''w.json''
        \<lparr>filepath = ''w.json'', workflow_id = JStr ''unknown'',
                     workflow_name = JStr ''unnamed'', node_count = 2,
                     node_types = [(JStr ''http'', 2)], has_connections = True,
                     connections_count = 1\<rparr>
        (now env_semgrep_missing (ticks st0)) (tick st0)"
    by (rule analyze_after_radar [OF l _ extract_doc_scenario pa(1) pa(2) pa(2)]) simp
  have r: "adapter_report env_semgrep_missing ''Agentic Radar''
             (radar_run env_semgrep_missing (output_dir analyzer0) ''w.json'')
     = Inr (JArr [synthetic_finding ''out/wf_radar/wf.html''])"
    by (simp add: analyzer0_def rr adapter_report_def progress_line_def pa py_len_def)
  have s: "adapter_report env_semgrep_missing ''Semgrep''
             (semgrep_run env_semgrep_missing (rules_path analyzer0) ''w.json'') = Inr (JArr [])"
    by (simp add: analyzer0_def sr adapter_report_def progress_line_def pa)
  show ?thesis
    unfolding eq
    by (subst run_adapters_result [OF r pa(1) s, of 1 0])
       (simp_all add: py_len_def st0_def tick_def called_def numeral_3_eq_3 numeral_2_eq_2)
qed

lemma emit_failed: "foldl emit (doc, Some e) pieces = (doc, Some e)"
  by (induction pieces) (simp_all add: emit_def)

lemma emit_prefix:
  "foldl emit (doc, None) pieces
     = (doc @ fst (foldl emit ([], None) pieces), snd (foldl emit ([], None) pieces))"
proof (induction pieces arbitrary: doc)
  case Nil
  then show ?case by simp
next
  case (Cons piece pieces)
  show ?case
  proof (cases piece)
    case (Inl e)
    have "emit (doc, None) piece = (doc, Some e)" "emit ([], None) piece = ([], Some e)"
      using Inl by (simp_all add: emit_def)
    then show ?thesis by (simp add: emit_failed)
  next
    case (Inr t)
    have "foldl emit (doc, None) (piece # pieces) = foldl emit (doc @ t, None) pieces"
      using Inr by (simp add: emit_def)
    also have "\<dots> = ((doc @ t) @ fst (foldl emit ([], None) pieces),
                      snd (foldl emit ([], None) pieces))"
      by (rule Cons.IH)
    finally have l: "foldl emit (doc, None) (piece # pieces)
      = (doc @ t @ fst (foldl emit ([], None) pieces), snd (foldl emit ([], None) pieces))"
      by simp
    have "foldl emit ([], None) (piece # pieces) = foldl emit (t, None) pieces"
      using Inr by (simp add: emit_def)
    also have "\<dots> = (t @ fst (foldl emit ([], None) pieces), snd (foldl emit ([], None) pieces))"
      by (rule Cons.IH)
    finally show ?thesis using l by simp
  qed
qed

lemma py_str_clock: "py_str (E\<lparr>now := c\<rparr>) v = py_str E v"
  by (cases v) (simp_all add: py_str_def)

lemma radar_line_clock: "radar_line (E\<lparr>now := c\<rparr>) = radar_line E"
  by (rule ext) (simp add: radar_line_def py_str_clock)

lemma semgrep_line_clock: "semgrep_line (E\<lparr>now := c\<rparr>) = semgrep_line E"
  by (rule ext) (simp add: semgrep_line_def py_str_clock)

lemma sections_clock: "sections (E\<lparr>now := c\<rparr>) idx rs = sections E idx rs"
  by (induction rs arbitrary: idx)
     (simp_all add: workflow_section_def radar_line_clock semgrep_line_clock py_str_clock)

lemma report_body_clock: "report_body (E\<lparr>now := c\<rparr>) rs = report_body E rs"
  by (simp add: report_body_def sections_clock)

lemma emit_two: "foldl emit ([], None) (Inr a # Inr b # pieces) = foldl emit (a @ b, None) pieces"
  by (simp add: emit_def)

lemma markdown_document:
  "fst (fst (generate_markdown_report E rs st))
     = (''# n8n Workflow Security Analysis Report'' @ nl @ nl)
       @ (''**Generated:** '' @ strftime (now E (ticks st)) @ nl @ nl)
       @ fst (foldl emit ([], None) (report_body E rs))"
  unfolding generate_markdown_report_def emit_two
  by (subst emit_prefix) simp

section \<open>Claims about validation and metadata extraction\<close>

text \<open>
  \<^bold>\<open>C2.\<close> Every outcome that \<^verbatim>\<open>validate_structure\<close> or \<^verbatim>\<open>load_workflow\<close>
  returns has \<^verbatim>\<open>valid\<close> true exactly when its \<^verbatim>\<open>errors\<close> are empty; and two such
  outcomes with the same errors have the same \<^verbatim>\<open>valid\<close> flag, whatever warnings
  they carry.
\<close>

theorem validation_valid_iff_no_errors:
  assumes "validate_structure doc = Inr v \<or> load_workflow fs path = Inr (d, v)"
  shows "valid v = (errors v = [])
       \<and> (\<forall>doc' fs' path' d' w.
            (validate_structure doc' = Inr w \<or> load_workflow fs' path' = Inr (d', w))
            \<and> errors w = errors v \<longrightarrow> valid w = valid v)"
  using assms validate_inv load_inv by metis

theorem validation_valid_iff_no_errors_witness:
  "validate_structure doc_nodes_only
     = Inr \<lparr>valid = True, errors = [],
            warnings = [''Workflow has no '' @ sq ''connections'' @ '' field'']\<rparr>
   \<and> valid \<lparr>valid = True, errors = [],
            warnings = [''Workflow has no '' @ sq ''connections'' @ '' field'']\<rparr>
     = (errors \<lparr>valid = True, errors = [],
            warnings = [''Workflow has no '' @ sq ''connections'' @ '' field'']\<rparr> = [])"
proof -
  have h: "validate_structure doc_nodes_only
     = Inr \<lparr>valid = True, errors = [],
            warnings = [''Workflow has no '' @ sq ''connections'' @ '' field'']\<rparr>"
    by (simp add: doc_nodes_only_def validate_structure_def check_nodes_def
        check_connections_def py_in_def py_getitem_def)
  from validation_valid_iff_no_errors [of doc_nodes_only _ "\<lambda>p. Absent" "''x''" None, OF disjI1, OF h] h
  show ?thesis by simp
qed

text \<open>
  \<^bold>\<open>C10.\<close> When the path holds a regular file that parses and structural
  validation fails, \<^verbatim>\<open>load_workflow\<close> returns the parsed document with the failing
  outcome; whenever it returns, the document is absent exactly for a missing path,
  a path that is not a regular file, a parse error or a read error.
\<close>

theorem load_workflow_returns_document:
  "(fs path = Present Regular (Parsed doc) \<and> validate_structure doc = Inr v \<and> \<not> valid v
      \<longrightarrow> load_workflow fs path = Inr (Some doc, v))
   \<and> (load_workflow fs path = Inr (d, w) \<longrightarrow>
        (d = None) =
          (fs path = Absent \<or> \<not> path_isfile fs path
           \<or> (\<exists>msg. read_json fs path = JSONDecodeError msg)
           \<or> (\<exists>msg. read_json fs path = IOError msg)))"
  by (auto simp: load_workflow_def path_exists_def path_isfile_def read_json_def ebind_Inr_iff
           split: if_splits read_result.splits fsnode.splits fkind.splits)

theorem load_workflow_returns_document_witness:
  "load_workflow (fs_one (JObj [])) ''w.json''
     = Inr (Some (JObj []),
            \<lparr>valid = False, errors = [''Missing required field: '' @ sq ''nodes''],
             warnings = [''Workflow has no '' @ sq ''connections'' @ '' field'']\<rparr>)
   \<and> path_isfile (fs_one (JObj [])) ''w.json''
   \<and> read_json (fs_one (JObj [])) ''w.json'' = Parsed (JObj [])"
proof -
  have v: "validate_structure (JObj [])
     = Inr \<lparr>valid = False, errors = [''Missing required field: '' @ sq ''nodes''],
             warnings = [''Workflow has no '' @ sq ''connections'' @ '' field'']\<rparr>"
    by (simp add: validate_structure_def check_nodes_def check_connections_def py_in_def)
  have f: "fs_one (JObj []) ''w.json'' = Present Regular (Parsed (JObj []))"
    by (simp add: fs_one_def)
  from load_workflow_returns_document [of "fs_one (JObj [])" "''w.json''" "JObj []"
      "\<lparr>valid = False, errors = [''Missing required field: '' @ sq ''nodes''],
             warnings = [''Workflow has no '' @ sq ''connections'' @ '' field'']\<rparr>"
      "Some (JObj [])"
      "\<lparr>valid = False, errors = [''Missing required field: '' @ sq ''nodes''],
             warnings = [''Workflow has no '' @ sq ''connections'' @ '' field'']\<rparr>"] v f
  show ?thesis by (simp add: path_isfile_def read_json_def)
qed

text \<open>
  \<^bold>\<open>C8.\<close> A document whose \<^verbatim>\<open>nodes\<close> is a list of records that each hold
  \<^verbatim>\<open>id\<close>, \<^verbatim>\<open>name\<close> and \<^verbatim>\<open>type\<close>, and whose \<^verbatim>\<open>connections\<close> is a mapping,
  validates with no error and no warning.
\<close>

theorem validate_structure_clean:
  assumes "py_getitem doc ''nodes'' = Inr (JArr ns)"
    and "list_all node_complete ns"
    and "py_getitem doc ''connections'' = Inr (JObj c)"
  shows "validate_structure doc = Inr \<lparr>valid = True, errors = [], warnings = []\<rparr>"
proof -
  from assms(1) obtain kvs where doc: "doc = JObj kvs"
    by (cases doc) (simp_all add: py_getitem_def)
  from assms(1) doc have n: "map_of kvs ''nodes'' = Some (JArr ns)"
    by (simp add: py_getitem_def split: option.splits)
  from assms(3) doc have c: "map_of kvs ''connections'' = Some (JObj c)"
    by (simp add: py_getitem_def split: option.splits)
  from n have n_in: "''nodes'' \<in> set (map fst kvs)"
    by (metis map_of_eq_None_iff option.distinct(1) set_map)
  from c have c_in: "''connections'' \<in> set (map fst kvs)"
    by (metis map_of_eq_None_iff option.distinct(1) set_map)
  have "check_nodes doc = Inr \<lparr>valid = True, errors = [], warnings = []\<rparr>"
    using doc n n_in assms(2)
    by (simp add: check_nodes_def py_in_def py_getitem_def node_warnings_complete)
  moreover have "check_connections doc \<lparr>valid = True, errors = [], warnings = []\<rparr>
                 = Inr \<lparr>valid = True, errors = [], warnings = []\<rparr>"
    using doc c c_in
    by (simp add: check_connections_def py_in_def py_getitem_def is_dict_def)
  ultimately show ?thesis by (simp add: validate_structure_def)
qed

theorem validate_structure_clean_witness:
  "py_getitem doc_scenario ''nodes''
     = Inr (JArr [JObj [(''id'', JStr ''1''), (''name'', JStr ''A''), (''type'', JStr ''http'')],
                  JObj [(''id'', JStr ''2''), (''name'', JStr ''B''), (''type'', JStr ''http'')]])
   \<and> list_all node_complete
        [JObj [(''id'', JStr ''1''), (''name'', JStr ''A''), (''type'', JStr ''http'')],
         JObj [(''id'', JStr ''2''), (''name'', JStr ''B''), (''type'', JStr ''http'')]]
   \<and> py_getitem doc_scenario ''connections''
     = Inr (JObj [(''1'', JObj [(''main'', JArr [JArr [JStr ''2'']])]), (''2'', JArr [])])
   \<and> validate_structure doc_scenario = Inr \<lparr>valid = True, errors = [], warnings = []\<rparr>"
proof -
  have n: "py_getitem doc_scenario ''nodes''
     = Inr (JArr [JObj [(''id'', JStr ''1''), (''name'', JStr ''A''), (''type'', JStr ''http'')],
                  JObj [(''id'', JStr ''2''), (''name'', JStr ''B''), (''type'', JStr ''http'')]])"
    by (simp add: doc_scenario_def py_getitem_def)
  have c: "list_all node_complete
        [JObj [(''id'', JStr ''1''), (''name'', JStr ''A''), (''type'', JStr ''http'')],
         JObj [(''id'', JStr ''2''), (''name'', JStr ''B''), (''type'', JStr ''http'')]]"
    by (simp add: node_complete_def)
  have k: "py_getitem doc_scenario ''connections''
     = Inr (JObj [(''1'', JObj [(''main'', JArr [JArr [JStr ''2'']])]), (''2'', JArr [])])"
    by (simp add: doc_scenario_def py_getitem_def)
  from validate_structure_clean [OF n c k] n c k show ?thesis by simp
qed

text \<open>
  \<^bold>\<open>C7.\<close> For a valid document, the metadata that \<^verbatim>\<open>extract_metadata\<close> returns
  has a node count equal to the length of the \<^verbatim>\<open>nodes\<close> list, and the counts per
  node type add up to it.
\<close>

theorem node_type_counts_sum_to_node_count:
  assumes "validate_structure doc = Inr v" and "valid v"
    and "extract_metadata doc fp = Inr m"
  shows "\<exists>ns. py_getitem doc ''nodes'' = Inr (JArr ns)
             \<and> node_count m = length ns
             \<and> sum_list (map snd (node_types m)) = node_count m"
proof -
  from valid_nodes_list [OF assms(1,2)] obtain ns where
    ns: "py_getitem doc ''nodes'' = Inr (JArr ns)" by blast
  have g: "py_get doc ''nodes'' (JArr []) = Inr (JArr ns)" by (rule getitem_get [OF ns])
  from assms(3) obtain types where
    t: "node_type_counts doc = Inr types" and nt: "node_types m = types"
    and nc: "node_count m = length ns"
    by (auto simp: extract_metadata_def ebind_Inr_iff g py_len_def)
  from t have "count_node_types [] ns = Inr types"
    by (simp add: node_type_counts_def g py_iter_def)
  from count_node_types_sum [OF this] nt nc ns show ?thesis by simp
qed

theorem node_type_counts_sum_to_node_count_witness:
  "validate_structure doc_scenario = Inr \<lparr>valid = True, errors = [], warnings = []\<rparr>
   \<and> extract_metadata doc_scenario ''w.json''
     = Inr \<lparr>filepath = ''w.json'', workflow_id = JStr ''unknown'', workflow_name = JStr ''unnamed'',
            node_count = 2, node_types = [(JStr ''http'', 2)], has_connections = True,
            connections_count = 1\<rparr>
   \<and> (\<exists>ns. py_getitem doc_scenario ''nodes'' = Inr (JArr ns) \<and> (2::nat) = length ns)"
proof -
  from node_type_counts_sum_to_node_count [OF validate_doc_scenario _ extract_doc_scenario]
    validate_doc_scenario extract_doc_scenario
  show ?thesis by simp
qed

text \<open>
  \<^bold>\<open>C9.\<close> When \<^verbatim>\<open>connections\<close> is a mapping, counting its connections never
  fails and gives the sum of the sizes of those of its values that are mappings, the
  other values counting for nothing; the metadata carries that number, and
  \<^verbatim>\<open>extract_metadata\<close> can then fail only while counting the node types.
\<close>

theorem connections_count_sum:
  assumes "py_getitem doc ''connections'' = Inr (JObj c)"
  shows "count_connections (JObj c)
           = Inr (sum_list (map (\<lambda>v. case v of JObj inner \<Rightarrow> length inner | _ \<Rightarrow> 0) (map snd c)))
       \<and> (\<forall>m. extract_metadata doc fp = Inr m \<longrightarrow>
             connections_count m
               = sum_list (map (\<lambda>v. case v of JObj inner \<Rightarrow> length inner | _ \<Rightarrow> 0) (map snd c)))
       \<and> (\<forall>e. extract_metadata doc fp = Inl e \<longrightarrow> node_type_counts doc = Inl e)"
proof -
  have cc: "count_connections (JObj c)
           = Inr (sum_list (map (\<lambda>v. case v of JObj inner \<Rightarrow> length inner | _ \<Rightarrow> 0) (map snd c)))"
    by (simp add: count_connections_def py_values_def sum_lens_total)
  have g: "py_get doc ''connections'' (JObj []) = Inr (JObj c)"
    by (rule getitem_get [OF assms])
  from assms obtain kvs where doc: "doc = JObj kvs"
    by (cases doc) (simp_all add: py_getitem_def)
  have m: "\<forall>m. extract_metadata doc fp = Inr m \<longrightarrow>
             connections_count m
               = sum_list (map (\<lambda>v. case v of JObj inner \<Rightarrow> length inner | _ \<Rightarrow> 0) (map snd c))"
    by (auto simp: extract_metadata_def ebind_Inr_iff g cc)
  have e: "\<forall>e. extract_metadata doc fp = Inl e \<longrightarrow> node_type_counts doc = Inl e"
  proof (intro allI impI)
    fix e assume ex: "extract_metadata doc fp = Inl e"
    show "node_type_counts doc = Inl e"
    proof (cases "node_type_counts doc")
      case (Inl e')
      with ex show ?thesis by (simp add: extract_metadata_def)
    next
      case (Inr types)
      then obtain nodes ns where n: "py_get doc ''nodes'' (JArr []) = Inr nodes"
        and it: "py_iter nodes = Inr ns"
        by (auto simp: node_type_counts_def ebind_Inr_iff)
      from it obtain k where "py_len nodes = Inr k"
        by (cases nodes) (auto simp: py_iter_def py_len_def)
      with ex Inr n g cc doc show ?thesis
        by (simp add: extract_metadata_def py_in_def py_get_def)
    qed
  qed
  from cc m e show ?thesis by blast
qed

theorem connections_count_sum_witness:
  "py_getitem doc_scenario ''connections''
     = Inr (JObj [(''1'', JObj [(''main'', JArr [JArr [JStr ''2'']])]), (''2'', JArr [])])
   \<and> count_connections (JObj [(''1'', JObj [(''main'', JArr [JArr [JStr ''2'']])]), (''2'', JArr [])])
     = Inr 1
   \<and> connections_count \<lparr>filepath = ''w.json'', workflow_id = JStr ''unknown'',
        workflow_name = JStr ''unnamed'', node_count = 2, node_types = [(JStr ''http'', 2)],
        has_connections = True, connections_count = 1\<rparr> = 1"
proof -
  have k: "py_getitem doc_scenario ''connections''
     = Inr (JObj [(''1'', JObj [(''main'', JArr [JArr [JStr ''2'']])]), (''2'', JArr [])])"
    by (simp add: doc_scenario_def py_getitem_def)
  from connections_count_sum [OF k, of "''w.json''"] k extract_doc_scenario
  show ?thesis by simp
qed

text \<open>
  \<^bold>\<open>C1.\<close> Metadata extraction is claimed never to raise on a document that
  validation accepts. Validation accepts, with a warning only, a document with a
  node that is not a record, and one whose \<^verbatim>\<open>connections\<close> is not a mapping;
  on both \<^verbatim>\<open>extract_metadata\<close> raises \<^verbatim>\<open>AttributeError\<close>.
\<close>

theorem extract_metadata_raises_on_accepted_document:
  "validate_structure (JObj [(''nodes'', JArr [JInt 1])])
     = Inr \<lparr>valid = True, errors = [],
            warnings = [''Node at index 0 is not an object'',
                        ''Workflow has no '' @ sq ''connections'' @ '' field'']\<rparr>
   \<and> extract_metadata (JObj [(''nodes'', JArr [JInt 1])]) ''w.json'' = Inl AttributeError
   \<and> validate_structure (JObj [(''nodes'', JArr []), (''connections'', JArr [])])
     = Inr \<lparr>valid = True, errors = [],
            warnings = [''Field '' @ sq ''connections'' @ '' should be an object'']\<rparr>
   \<and> extract_metadata (JObj [(''nodes'', JArr []), (''connections'', JArr [])]) ''w.json''
     = Inl AttributeError"
  by (simp add: validate_structure_def check_nodes_def check_connections_def py_in_def
      py_getitem_def is_dict_def extract_metadata_def node_type_counts_def py_get_def
      py_iter_def count_connections_def py_values_def show_nat.simps digit_char_def)

section \<open>Claims about the analyzer adapters\<close>




lemma radar_parse_output_null_findings:
  "radar_json_findings env_null_findings (path_join env_null_findings ''out'' (''wf'' @ ''.json''))
     = JNull
   \<and> radar_parse_output env_null_findings ''out'' ''wf'' = Inl AttributeError"
  by (simp add: env_null_findings_def env0_def radar_parse_output_def radar_json_findings_def
      path_exists_def read_json_def findings_of_data_def is_dict_def py_in_def py_getitem_def
      py_truthy_def py_append_def Let_def)

text \<open>
  \<^bold>\<open>C4.\<close> As stated the claim fails: on a valid workflow the radar tool exits with
  code 2, the terminal cannot encode a letter of its standard error, and printing
  the error line raises; no record is produced, although the adapter has run and
  has failed with a disallowed exit code.
\<close>

theorem adapter_failure_counterexample:
  "RadarRun ''w.json''
     \<in> set (new_calls st0 (snd (analyze env_narrow_stdout analyzer0 ''w.json'' st0)))
   \<and> failure_of radar_ok
        (subprocess_run env_narrow_stdout
           (radar_cmd env_narrow_stdout (output_dir analyzer0) ''w.json''))
       = Some BadExit
   \<and> fst (analyze env_narrow_stdout analyzer0 ''w.json'' st0) = Inl UnicodeEncodeError"
proof -
  have l: "load_workflow (files env_narrow_stdout) ''w.json''
     = Inr (Some doc_scenario, \<lparr>valid = True, errors = [], warnings = []\<rparr>)"
    unfolding env_narrow_stdout_def env0_def by (simp add: load_doc_scenario)
  have a: "stdout_accepts env_narrow_stdout = (\<lambda>t. CHR 0xE9 \<notin> set t)"
    by (simp add: env_narrow_stdout_def env0_def)
  have p1: "py_print env_narrow_stdout (loading_line ''w.json'') = Inr ()"
    by (simp add: py_print_def a loading_line_def nl_def)
  have p2: "print_lines env_narrow_stdout
              (warning_lines \<lparr>valid = True, errors = [], warnings = []\<rparr>) = Inr ()"
    by (simp add: warning_lines_def)
  have p3: "print_lines env_narrow_stdout
              (metadata_lines env_narrow_stdout
                 \<lparr>filepath = ''w.json'', workflow_id = JStr ''unknown'',
                  workflow_name = JStr ''unnamed'', node_count = 2,
                  node_types = [(JStr ''http'', 2)], has_connections = True,
                  connections_count = 1\<rparr>) = Inr ()"
    by (simp add: metadata_lines_def py_print_def a py_str_def nl_def show_nat.simps
        digit_char_def)
  have eq: "analyze env_narrow_stdout analyzer0 ''w.json'' st0
    = run_adapters env_narrow_stdout analyzer0 ''w.json''
        \<lparr>filepath = ''w.json'', workflow_id = JStr ''unknown'',
                     workflow_name = JStr ''unnamed'', node_count = 2,
                     node_types = [(JStr ''http'', 2)], has_connections = True,
                     connections_count = 1\<rparr>
        (now env_narrow_stdout (ticks st0)) (tick st0)"
    by (rule analyze_after_radar [OF l _ extract_doc_scenario p1 p2 p3]) simp
  have rr: "radar_run env_narrow_stdout (output_dir analyzer0) ''w.json''
     = (JArr [], False, ''Agentic Radar failed: '' @ ''caf'' @ [CHR 0xE9])"
    by (simp add: env_narrow_stdout_def env0_def radar_run_def radar_result_def)
  have r: "adapter_report env_narrow_stdout ''Agentic Radar''
             (radar_run env_narrow_stdout (output_dir analyzer0) ''w.json'')
           = Inl UnicodeEncodeError"
    by (simp add: rr adapter_report_def progress_line_def py_print_def a)
  have f: "failure_of radar_ok
        (subprocess_run env_narrow_stdout
           (radar_cmd env_narrow_stdout (output_dir analyzer0) ''w.json''))
       = Some BadExit"
    by (simp add: env_narrow_stdout_def env0_def failure_of_def radar_ok_def)
  have "analyze env_narrow_stdout analyzer0 ''w.json'' st0
          = (Inl UnicodeEncodeError, called (RadarRun ''w.json'') (tick st0))"
    unfolding eq by (simp add: run_adapters_def Let_def r)
  with f show ?thesis by (simp add: new_calls_simps)
qed

text \<open>
  \<^bold>\<open>C4, amended.\<close> When its subprocess times out, is not found or exits with a
  code that is not allowed, an adapter's \<^verbatim>\<open>run\<close> returns no findings,
  \<^verbatim>\<open>success\<close> false, and a message that differs between any two of the three
  kinds of failure. When \<^verbatim>\<open>analyze\<close> has invoked an adapter, it fails this way,
  and the terminal takes the lines \<^verbatim>\<open>analyze\<close> prints from then on (the line of
  each adapter and the line that announces the second one), the record is produced,
  with that tool's findings empty and the other tool's findings as its \<^verbatim>\<open>run\<close>
  returned them.
\<close>

theorem adapter_failure_degrades:
  "(failure_of radar_ok (subprocess_run E (radar_cmd E d p)) \<noteq> None
      \<longrightarrow> (\<exists>msg. radar_run E d p = (JArr [], False, msg)))
   \<and> (path_exists (files E) rules
        \<and> failure_of semgrep_ok (subprocess_run E (semgrep_cmd rules p)) \<noteq> None
      \<longrightarrow> (\<exists>msg. semgrep_run E rules p = (JArr [], False, msg)))
   \<and> (failure_of radar_ok o1 = Some k1 \<and> failure_of radar_ok o2 = Some k2 \<and> k1 \<noteq> k2
      \<longrightarrow> snd (snd (radar_result E d p o1)) \<noteq> snd (snd (radar_result E d p o2)))
   \<and> (failure_of semgrep_ok o1 = Some k1 \<and> failure_of semgrep_ok o2 = Some k2 \<and> k1 \<noteq> k2
      \<longrightarrow> snd (snd (semgrep_result E o1)) \<noteq> snd (snd (semgrep_result E o2)))
   \<and> (RadarRun p \<in> set (new_calls st (snd (analyze E A p st)))
        \<and> failure_of radar_ok (subprocess_run E (radar_cmd E (output_dir A) p)) \<noteq> None
        \<and> printable E (progress_line ''Agentic Radar'' (radar_run E (output_dir A) p))
        \<and> stdout_accepts E semgrep_banner
        \<and> printable E (progress_line ''Semgrep'' (semgrep_run E (rules_path A) p))
      \<longrightarrow> (\<exists>r. fst (analyze E A p st) = Inr (Some r)
               \<and> agentic_radar_findings r = JArr []
               \<and> semgrep_findings r = fst (semgrep_run E (rules_path A) p)))
   \<and> (SemgrepRun p \<in> set (new_calls st (snd (analyze E A p st)))
        \<and> path_exists (files E) (rules_path A)
        \<and> failure_of semgrep_ok (subprocess_run E (semgrep_cmd (rules_path A) p)) \<noteq> None
        \<and> printable E (progress_line ''Semgrep'' (semgrep_run E (rules_path A) p))
      \<longrightarrow> (\<exists>r. fst (analyze E A p st) = Inr (Some r)
               \<and> semgrep_findings r = JArr []
               \<and> agentic_radar_findings r = fst (radar_run E (output_dir A) p)))"
proof (intro conjI impI)
  assume "failure_of radar_ok (subprocess_run E (radar_cmd E d p)) \<noteq> None"
  then show "\<exists>msg. radar_run E d p = (JArr [], False, msg)"
    using radar_run_failed [of E d p] by auto
next
  assume "path_exists (files E) rules
        \<and> failure_of semgrep_ok (subprocess_run E (semgrep_cmd rules p)) \<noteq> None"
  then show "\<exists>msg. semgrep_run E rules p = (JArr [], False, msg)"
    using semgrep_run_failed [of E rules p] by auto
next
  assume "failure_of radar_ok o1 = Some k1 \<and> failure_of radar_ok o2 = Some k2 \<and> k1 \<noteq> k2"
  then show "snd (snd (radar_result E d p o1)) \<noteq> snd (snd (radar_result E d p o2))"
    using radar_messages_distinct by blast
next
  assume "failure_of semgrep_ok o1 = Some k1 \<and> failure_of semgrep_ok o2 = Some k2 \<and> k1 \<noteq> k2"
  then show "snd (snd (semgrep_result E o1)) \<noteq> snd (snd (semgrep_result E o2))"
    using semgrep_messages_distinct by blast
next
  assume h: "RadarRun p \<in> set (new_calls st (snd (analyze E A p st)))
        \<and> failure_of radar_ok (subprocess_run E (radar_cmd E (output_dir A) p)) \<noteq> None
        \<and> printable E (progress_line ''Agentic Radar'' (radar_run E (output_dir A) p))
        \<and> stdout_accepts E semgrep_banner
        \<and> printable E (progress_line ''Semgrep'' (semgrep_run E (rules_path A) p))"
  then have inv: "RadarRun p \<in> set (new_calls st (snd (analyze E A p st)))"
    and pr: "printable E (progress_line ''Agentic Radar'' (radar_run E (output_dir A) p))"
    and pb: "stdout_accepts E semgrep_banner"
    and ps: "printable E (progress_line ''Semgrep'' (semgrep_run E (rules_path A) p))"
    by blast+
  from analyze_radar_invoked [OF inv] obtain w v md where
    l: "load_workflow (files E) p = Inr (Some w, v)" and v: "valid v"
    and m: "extract_metadata w p = Inr md"
    and p1: "py_print E (loading_line p) = Inr ()"
    and p2: "print_lines E (warning_lines v) = Inr ()"
    and p3: "print_lines E (metadata_lines E md) = Inr ()"
    by blast
  from h radar_run_failed [of E "output_dir A" p] obtain msg where
    rr: "radar_run E (output_dir A) p = (JArr [], False, msg)" by auto
  from failed_report [OF rr] pr
  have kr: "adapter_report E ''Agentic Radar'' (radar_run E (output_dir A) p) = Inr (JArr [])"
    by simp
  from pb have kb: "py_print E semgrep_banner = Inr ()" by (simp add: py_print_def)
  note ks = semgrep_report [OF ps]
  from semgrep_run_shape [of E "rules_path A" p] obtain xs where
    xs: "fst (semgrep_run E (rules_path A) p) = JArr xs" by blast
  have "analyze E A p st = run_adapters E A p md (now E (ticks st)) (tick st)"
    by (rule analyze_after_radar [OF l v m p1 p2 p3])
  also have "\<dots> = (Inr (Some \<lparr>workflow_path = p, metadata = md,
                   agentic_radar_findings = JArr [],
                   semgrep_findings = fst (semgrep_run E (rules_path A) p),
                   total_findings = 0 + length xs,
                   execution_time = micros_between (now E (ticks st))
                      (now E (ticks (called (SemgrepRun p) (called (RadarRun p) (tick st))))),
                   timestamp = isoformat (now E (ticks
                      (tick (called (SemgrepRun p) (called (RadarRun p) (tick st))))))\<rparr>),
        tick (tick (called (SemgrepRun p) (called (RadarRun p) (tick st)))))"
    by (rule run_adapters_result [OF kr kb ks]) (simp_all add: py_len_def xs)
  finally show "\<exists>r. fst (analyze E A p st) = Inr (Some r)
               \<and> agentic_radar_findings r = JArr []
               \<and> semgrep_findings r = fst (semgrep_run E (rules_path A) p)"
    by simp
next
  assume h: "SemgrepRun p \<in> set (new_calls st (snd (analyze E A p st)))
        \<and> path_exists (files E) (rules_path A)
        \<and> failure_of semgrep_ok (subprocess_run E (semgrep_cmd (rules_path A) p)) \<noteq> None
        \<and> printable E (progress_line ''Semgrep'' (semgrep_run E (rules_path A) p))"
  then have inv: "SemgrepRun p \<in> set (new_calls st (snd (analyze E A p st)))"
    and ps: "printable E (progress_line ''Semgrep'' (semgrep_run E (rules_path A) p))"
    by blast+
  from analyze_semgrep_invoked [OF inv] obtain w v md rf where
    l: "load_workflow (files E) p = Inr (Some w, v)" and v: "valid v"
    and m: "extract_metadata w p = Inr md"
    and p1: "py_print E (loading_line p) = Inr ()"
    and p2: "print_lines E (warning_lines v) = Inr ()"
    and p3: "print_lines E (metadata_lines E md) = Inr ()"
    and kr: "adapter_report E ''Agentic Radar'' (radar_run E (output_dir A) p) = Inr rf"
    and kb: "py_print E semgrep_banner = Inr ()"
    by blast
  from radar_report_kept [OF kr] obtain n where
    rf: "rf = fst (radar_run E (output_dir A) p)" and n: "py_len rf = Inr n" by blast
  from h semgrep_run_failed [of E "rules_path A" p] obtain msg where
    sr: "semgrep_run E (rules_path A) p = (JArr [], False, msg)" by auto
  from failed_report [OF sr] ps
  have ks: "adapter_report E ''Semgrep'' (semgrep_run E (rules_path A) p) = Inr (JArr [])"
    by simp
  have "analyze E A p st = run_adapters E A p md (now E (ticks st)) (tick st)"
    by (rule analyze_after_radar [OF l v m p1 p2 p3])
  also have "\<dots> = (Inr (Some \<lparr>workflow_path = p, metadata = md,
                   agentic_radar_findings = rf,
                   semgrep_findings = JArr [],
                   total_findings = n + 0,
                   execution_time = micros_between (now E (ticks st))
                      (now E (ticks (called (SemgrepRun p) (called (RadarRun p) (tick st))))),
                   timestamp = isoformat (now E (ticks
                      (tick (called (SemgrepRun p) (called (RadarRun p) (tick st))))))\<rparr>),
        tick (tick (called (SemgrepRun p) (called (RadarRun p) (tick st)))))"
    by (rule run_adapters_result [OF kr kb ks n]) (simp add: py_len_def)
  finally show "\<exists>r. fst (analyze E A p st) = Inr (Some r)
               \<and> semgrep_findings r = JArr []
               \<and> agentic_radar_findings r = fst (radar_run E (output_dir A) p)"
    using rf by simp
qed

theorem adapter_failure_degrades_witness:
  "RadarRun ''w.json''
     \<in> set (new_calls st0 (snd (analyze env_radar_timeout analyzer0 ''w.json'' st0)))
   \<and> failure_of radar_ok
        (subprocess_run env_radar_timeout
           (radar_cmd env_radar_timeout (output_dir analyzer0) ''w.json''))
       = Some Timeout
   \<and> printable env_radar_timeout
        (progress_line ''Agentic Radar'' (radar_run env_radar_timeout (output_dir analyzer0) ''w.json''))
   \<and> stdout_accepts env_radar_timeout semgrep_banner
   \<and> printable env_radar_timeout
        (progress_line ''Semgrep'' (semgrep_run env_radar_timeout (rules_path analyzer0) ''w.json''))
   \<and> (\<exists>r. fst (analyze env_radar_timeout analyzer0 ''w.json'' st0) = Inr (Some r)
          \<and> agentic_radar_findings r = JArr []
          \<and> semgrep_findings r
             = JArr [JObj [(''tool'', JStr ''semgrep''), (''rule_id'', JStr ''rule-1''),
                           (''message'', JStr []), (''severity'', JStr ''WARNING''),
                           (''path'', JStr []), (''line'', JInt 0), (''code'', JStr []),
                           (''metadata'', JObj [])]])
   \<and> SemgrepRun ''w.json''
     \<in> set (new_calls st0 (snd (analyze env_semgrep_missing analyzer0 ''w.json'' st0)))
   \<and> path_exists (files env_semgrep_missing) (rules_path analyzer0)
   \<and> failure_of semgrep_ok
        (subprocess_run env_semgrep_missing (semgrep_cmd (rules_path analyzer0) ''w.json''))
       = Some NotFound
   \<and> printable env_semgrep_missing
        (progress_line ''Semgrep'' (semgrep_run env_semgrep_missing (rules_path analyzer0) ''w.json''))
   \<and> (\<exists>r. fst (analyze env_semgrep_missing analyzer0 ''w.json'' st0) = Inr (Some r)
          \<and> semgrep_findings r = JArr []
          \<and> agentic_radar_findings r = JArr [synthetic_finding ''out/wf_radar/wf.html''])
   \<and> snd (snd (radar_result env0 ''out'' ''w.json'' TimeoutExpired))
       \<noteq> snd (snd (radar_result env0 ''out'' ''w.json'' FileNotFoundError))"
proof -
  have a1: "stdout_accepts env_radar_timeout = (\<lambda>t. True)"
    by (simp add: env_radar_timeout_def env0_def)
  have a2: "stdout_accepts env_semgrep_missing = (\<lambda>t. True)"
    by (simp add: env_semgrep_missing_def env0_def)
  have c: "RadarRun ''w.json''
     \<in> set (new_calls st0 (snd (analyze env_radar_timeout analyzer0 ''w.json'' st0)))"
    unfolding analyze_env_radar_timeout by (simp add: new_calls_def st0_def)
  have f: "failure_of radar_ok
        (subprocess_run env_radar_timeout
           (radar_cmd env_radar_timeout (output_dir analyzer0) ''w.json''))
       = Some Timeout"
    by (simp add: env_radar_timeout_def env0_def radar_cmd_def failure_of_def)
  have pr: "printable env_radar_timeout
        (progress_line ''Agentic Radar'' (radar_run env_radar_timeout (output_dir analyzer0) ''w.json''))"
    by (simp add: analyzer0_def radar_env_radar_timeout progress_line_def printable_def a1)
  have pb: "stdout_accepts env_radar_timeout semgrep_banner" by (simp add: a1)
  have ps: "printable env_radar_timeout
        (progress_line ''Semgrep'' (semgrep_run env_radar_timeout (rules_path analyzer0) ''w.json''))"
    by (simp add: analyzer0_def semgrep_env_radar_timeout progress_line_def printable_def a1
        py_len_def)
  have c': "SemgrepRun ''w.json''
     \<in> set (new_calls st0 (snd (analyze env_semgrep_missing analyzer0 ''w.json'' st0)))"
    unfolding analyze_env_semgrep_missing by (simp add: new_calls_def st0_def)
  have e': "path_exists (files env_semgrep_missing) (rules_path analyzer0)"
    by (simp add: env_semgrep_missing_def env0_def analyzer0_def path_exists_def)
  have f': "failure_of semgrep_ok
        (subprocess_run env_semgrep_missing (semgrep_cmd (rules_path analyzer0) ''w.json''))
       = Some NotFound"
    by (simp add: env_semgrep_missing_def env0_def semgrep_cmd_def failure_of_def)
  have sr: "semgrep_run env_semgrep_missing (rules_path analyzer0) ''w.json''
     = (JArr [], False, ''Semgrep not found. Is it installed?'')"
    by (simp add: env_semgrep_missing_def env0_def analyzer0_def semgrep_run_def semgrep_cmd_def
        path_exists_def semgrep_result_def)
  have ps': "printable env_semgrep_missing
        (progress_line ''Semgrep'' (semgrep_run env_semgrep_missing (rules_path analyzer0) ''w.json''))"
    by (simp add: sr progress_line_def printable_def a2)
  have k: "failure_of radar_ok TimeoutExpired = Some Timeout"
    "failure_of radar_ok FileNotFoundError = Some NotFound" "Timeout \<noteq> NotFound"
    by (simp_all add: failure_of_def)
  note t1 = adapter_failure_degrades [of env_radar_timeout "''out''" "''w.json''" "''rules.yaml''"
      TimeoutExpired Timeout FileNotFoundError NotFound st0 analyzer0]
  from t1 c f pr pb ps
  have "\<exists>r. fst (analyze env_radar_timeout analyzer0 ''w.json'' st0) = Inr (Some r)
          \<and> agentic_radar_findings r = JArr []
          \<and> semgrep_findings r = fst (semgrep_run env_radar_timeout (rules_path analyzer0) ''w.json'')"
    by blast
  then have r1: "\<exists>r. fst (analyze env_radar_timeout analyzer0 ''w.json'' st0) = Inr (Some r)
          \<and> agentic_radar_findings r = JArr []
          \<and> semgrep_findings r
             = JArr [JObj [(''tool'', JStr ''semgrep''), (''rule_id'', JStr ''rule-1''),
                           (''message'', JStr []), (''severity'', JStr ''WARNING''),
                           (''path'', JStr []), (''line'', JInt 0), (''code'', JStr []),
                           (''metadata'', JObj [])]]"
    by (simp add: semgrep_env_radar_timeout analyzer0_def)
  have r2: "\<exists>r. fst (analyze env_semgrep_missing analyzer0 ''w.json'' st0) = Inr (Some r)
          \<and> semgrep_findings r = JArr []
          \<and> agentic_radar_findings r = JArr [synthetic_finding ''out/wf_radar/wf.html'']"
    unfolding analyze_env_semgrep_missing by simp
  from t1 k
  have r3: "snd (snd (radar_result env_radar_timeout ''out'' ''w.json'' TimeoutExpired))
       \<noteq> snd (snd (radar_result env_radar_timeout ''out'' ''w.json'' FileNotFoundError))"
    by blast
  then have r3': "snd (snd (radar_result env0 ''out'' ''w.json'' TimeoutExpired))
       \<noteq> snd (snd (radar_result env0 ''out'' ''w.json'' FileNotFoundError))"
    by (simp add: radar_result_def)
  from c f pr pb ps r1 c' e' f' ps' r2 r3' show ?thesis by blast
qed

section \<open>Claims about the orchestrator\<close>




section \<open>Claims about the report emitters\<close>

text \<open>
  \<^bold>\<open>C6.\<close> As stated the claim fails for the markdown emitter: on the same
  (empty) result list, two runs one second apart write different documents.
\<close>

theorem markdown_report_counterexample:
  "fst (fst (generate_markdown_report env0 [] \<lparr>ticks = 0, calls = []\<rparr>))
     \<noteq> fst (fst (generate_markdown_report env0 [] \<lparr>ticks = 1, calls = []\<rparr>))"
  by code_simp

text \<open>
  \<^bold>\<open>C6, amended.\<close> The JSON emitter writes the same document on the same
  result list whatever the clock reads. The markdown emitter writes the same
  document on the same result list exactly when the local time, to the second, is
  the same in both runs.
\<close>

theorem report_emitters_determinism:
  "fst (generate_json_report (E\<lparr>now := c\<rparr>) rs st') = fst (generate_json_report E rs st)
   \<and> (fst (fst (generate_markdown_report (E\<lparr>now := c\<rparr>) rs st'))
        = fst (fst (generate_markdown_report E rs st)))
     = (strftime (c (ticks st')) = strftime (now E (ticks st)))"
  unfolding markdown_document report_body_clock
  by (simp add: generate_json_report_def)

end
